theory Spec2Isabelle
  imports Main
begin

section \<open>Shared vocabulary of the four server programs\<close>

text \<open>
  The repository holds four revisions of one HTTP gateway:
  \<^item> program A: \<^verbatim>\<open>src/server.js\<close> lines 1-479 (whatsapp-web.js transport);
  \<^item> program B: \<^verbatim>\<open>src/server.js\<close> lines 480-766 (Baileys transport);
  \<^item> program C: \<^verbatim>\<open>src/unnamed/part_000\<close> lines 1-282 (whatsapp-web.js transport);
  \<^item> program D: \<^verbatim>\<open>src/unnamed/part_000\<close> lines 283-716 (Baileys transport).
  A definition that embeds code of one program carries its suffix; the suffix \<open>BD\<close> is
  for code that programs B and D share line for line.

  A transport object (a \<^verbatim>\<open>Client\<close> or a Baileys socket) is a handle: its position in
  the list of objects constructed so far. Calls that leave the process (transport
  operations, timers, the file system, the outbound notification, the console) are
  recorded, in order, in the \<open>trace\<close> of the state. What such a call answers is an
  argument of the function that makes it: an \<open>outcome\<close> for a call that may throw, a
  \<open>bool\<close> for \<^verbatim>\<open>fs.existsSync\<close>, a function for the QR renderer.

  Request fields are strings, \<open>string option\<close> with \<open>None\<close> for an absent field. An
  HTTP handler returns the state at the moment it answers, together with the answer: a
  status code and the fields of the JSON body.
\<close>

type_synonym handle = nat

datatype outcome = Returns | Throws

datatype jv = JNull | JBool bool | JStr string

type_synonym response = "nat \<times> (string \<times> jv) list"

datatype task = StartSession string

datatype level = Log | Warn | Err

datatype effect =
    NewClient handle string
  | Initialize handle
  | MakeWASocket handle string
  | UseMultiFileAuthState string
  | FetchLatestBaileysVersion
  | Logout handle
  | Destroy handle
  | SendMessage handle string string
  | Sleep nat
  | SetTimeout task nat
  | Invoke task
  | Notify string string "string option"
  | ExistsSync string
  | RmSync string
  | Console level string

record conn_status =
  connected :: bool
  phone :: "string option"
  authenticating :: "bool option"

record server_state =
  qrCodes :: "string \<rightharpoonup> string"
  connectionStatus :: "string \<rightharpoonup> conn_status"
  created :: "string list"
  trace :: "effect list"

text \<open>JavaScript's truthiness of a string-valued field, \<^verbatim>\<open>String(x)\<close>, \<^verbatim>\<open>x || null\<close>
  and \<^verbatim>\<open>x.replace(/\D/g, '')\<close>.\<close>

definition truthy :: "string option \<Rightarrow> bool" where
  "truthy x = (case x of None \<Rightarrow> False | Some v \<Rightarrow> v \<noteq> [])"

definition String :: "string option \<Rightarrow> string" where
  "String x = (case x of None \<Rightarrow> ''undefined'' | Some v \<Rightarrow> v)"

definition or_null :: "string option \<Rightarrow> string option" where
  "or_null x = (if truthy x then x else None)"

definition jstr :: "string option \<Rightarrow> jv" where
  "jstr x = (case x of None \<Rightarrow> JNull | Some v \<Rightarrow> JStr v)"

definition digits_only :: "string \<Rightarrow> string" where
  "digits_only p = filter (\<lambda>c. c \<in> set ''0123456789'') p"

definition default_status :: conn_status where
  "default_status = \<lparr>connected = False, phone = None, authenticating = None\<rparr>"

definition emit :: "effect list \<Rightarrow> 'a server_state_scheme \<Rightarrow> 'a server_state_scheme" where
  "emit es s = s\<lparr>trace := trace s @ es\<rparr>"

definition tag :: "string \<Rightarrow> string \<Rightarrow> string" where
  "tag clientId msg = ''['' @ clientId @ ''] '' @ msg"

definition field :: "response \<Rightarrow> string \<Rightarrow> jv option" where
  "field r k = map_of (snd r) k"

text \<open>\<^verbatim>\<open>notifyPhpBackend\<close> is never awaited by its callers and catches its own failures:
  it is the one outbound request; its console lines are left out.\<close>

definition notifyPhpBackend ::
  "string \<Rightarrow> string \<Rightarrow> string option \<Rightarrow> 'a server_state_scheme \<Rightarrow> 'a server_state_scheme" where
  "notifyPhpBackend accountId status ph s = emit [Notify accountId status ph] s"

section \<open>Program A: \<^verbatim>\<open>src/server.js\<close>, whatsapp-web.js\<close>

text \<open>\<open>info s c\<close> is \<^verbatim>\<open>c.info.wid.user\<close>, and \<open>None\<close> while \<^verbatim>\<open>c.info\<close> is undefined; the
  library sets it, the program only reads it.\<close>

record state_A = server_state +
  whatsappClients :: "string \<rightharpoonup> handle"
  info :: "handle \<rightharpoonup> string"

definition init_A :: state_A where
  "init_A = \<lparr>qrCodes = Map.empty, connectionStatus = Map.empty, created = [], trace = [],
             whatsappClients = Map.empty, info = Map.empty\<rparr>"

text \<open>\<^verbatim>\<open>POST /api/whatsapp/connect\<close> (server.js lines 66-156). \<open>ctor\<close> says whether
  \<^verbatim>\<open>new Client(...)\<close> throws, which the \<^verbatim>\<open>catch\<close> of the route turns into the answer 500.\<close>

definition connect_A :: "outcome \<Rightarrow> state_A \<Rightarrow> string option \<Rightarrow> state_A \<times> response" where
  "connect_A ctor s account_id =
     (if \<not> truthy account_id then (s, (400, [(''error'', JStr ''Account ID required'')]))
      else
        let clientId = String account_id;
            ready = (case whatsappClients s clientId of
                       None \<Rightarrow> None
                     | Some existingClient \<Rightarrow> info s existingClient)
        in case ready of
             Some user \<Rightarrow>
               (s, (200, [(''success'', JBool True), (''connected'', JBool True),
                          (''phone'', JStr user)]))
           | None \<Rightarrow>
               (case ctor of
                  Throws \<Rightarrow>
                    (emit [Console Err ''Connect error:''] s,
                     (500, [(''error'', JStr ''Failed to start WhatsApp connection'')]))
                | Returns \<Rightarrow>
                    let client = length (created s);
                        s1 = emit [NewClient client clientId] (s\<lparr>created := created s @ [clientId]\<rparr>);
                        s2 = s1\<lparr>whatsappClients := (whatsappClients s1)(clientId \<mapsto> client)\<rparr>;
                        s3 = s2\<lparr>connectionStatus := (connectionStatus s2)(clientId \<mapsto> default_status)\<rparr>;
                        s4 = emit [Initialize client] s3
                    in (s4, (200, [(''success'', JBool True), (''message'', JStr ''Connecting...'')]))))"

text \<open>\<^verbatim>\<open>GET /api/whatsapp/status\<close> (server.js lines 159-188). It awaits nothing and
  changes nothing; no statement inside its \<^verbatim>\<open>try\<close> throws, so the answer 500 of its
  \<^verbatim>\<open>catch\<close> has no branch here.\<close>

definition status_A :: "state_A \<Rightarrow> string option \<Rightarrow> response" where
  "status_A s account_id =
     (if \<not> truthy account_id then (400, [(''error'', JStr ''Account ID required'')])
      else
        let clientId = String account_id;
            qr = or_null (qrCodes s clientId);
            status = (case connectionStatus s clientId of None \<Rightarrow> default_status | Some st \<Rightarrow> st);
            client = whatsappClients s clientId;
            user = (case client of None \<Rightarrow> None | Some c \<Rightarrow> info s c);
            conn = (user \<noteq> None);
            ph = (if conn then user else phone status);
            auth = (authenticating status = Some True)
        in (200, [(''qr'', jstr qr), (''connected'', JBool conn),
                  (''authenticating'', JBool auth), (''phone'', jstr ph)]))"

text \<open>\<^verbatim>\<open>POST /api/whatsapp/send\<close> (server.js lines 191-217). \<open>sent\<close> says whether
  \<^verbatim>\<open>client.sendMessage\<close> throws.\<close>

definition send_A ::
  "outcome \<Rightarrow> state_A \<Rightarrow> string option \<Rightarrow> string option \<Rightarrow> string option \<Rightarrow> state_A \<times> response" where
  "send_A sent s account_id ph message =
     (if \<not> truthy account_id \<or> \<not> truthy ph \<or> \<not> truthy message
      then (s, (400, [(''error'', JStr ''Account ID, phone, and message required'')]))
      else
        let clientId = String account_id
        in case whatsappClients s clientId of
             None \<Rightarrow> (s, (400, [(''error'', JStr ''WhatsApp not connected'')]))
           | Some client \<Rightarrow>
               (case info s client of
                  None \<Rightarrow> (s, (400, [(''error'', JStr ''WhatsApp not connected'')]))
                | Some user \<Rightarrow>
                    let formattedPhone = digits_only (String ph) @ ''@c.us'';
                        s1 = emit [SendMessage client formattedPhone (String message)] s
                    in (case sent of
                          Throws \<Rightarrow>
                            (emit [Console Err ''Send error:''] s1,
                             (500, [(''error'', JStr ''Failed to send message'')]))
                        | Returns \<Rightarrow>
                            (s1, (200, [(''success'', JBool True), (''message'', JStr ''Message sent'')])))))"


text \<open>What one invocation of \<^verbatim>\<open>cleanup\<close> observes of the outside world: whether
  \<^verbatim>\<open>client.logout()\<close> and \<^verbatim>\<open>client.destroy()\<close> throw, whether the session directory
  exists, and whether \<^verbatim>\<open>fs.rmSync\<close> throws (after its own retries).\<close>

record answers =
  logout_r :: outcome
  destroy_r :: outcome
  exists_r :: bool
  rm_r :: outcome

definition sessionPath :: "string \<Rightarrow> string" where
  "sessionPath clientId = ''.wwebjs_auth/session-'' @ clientId"

text \<open>The part of \<^verbatim>\<open>cleanup\<close> after its last \<^verbatim>\<open>await\<close> (server.js lines 409-432).\<close>

definition cleanup_tail_A :: "answers \<Rightarrow> state_A \<Rightarrow> string \<Rightarrow> state_A" where
  "cleanup_tail_A env s clientId =
     (let s1 = s\<lparr>whatsappClients := (whatsappClients s)(clientId := None)\<rparr>;
          s2 = s1\<lparr>qrCodes := (qrCodes s1)(clientId := None)\<rparr>;
          s3 = s2\<lparr>connectionStatus := (connectionStatus s2)(clientId \<mapsto> default_status)\<rparr>;
          s4 = emit [ExistsSync (sessionPath clientId)] s3
      in if exists_r env then
           (case rm_r env of
              Returns \<Rightarrow>
                emit [RmSync (sessionPath clientId),
                      Console Log (tag clientId ''Session files deleted'')] s4
            | Throws \<Rightarrow>
                emit [RmSync (sessionPath clientId),
                      Console Log (tag clientId ''Note: Could not delete session files (likely locked):'')] s4)
         else s4)"

definition logout_logged :: "answers \<Rightarrow> string \<Rightarrow> effect" where
  "logout_logged env clientId =
     (case logout_r env of
        Returns \<Rightarrow> Console Log (tag clientId ''Logged out from WhatsApp Web'')
      | Throws \<Rightarrow> Console Warn (tag clientId ''Logout failed:''))"

text \<open>\<^verbatim>\<open>cleanup\<close> run from its first line to its last with nothing in between
  (server.js lines 381-433). A failing \<^verbatim>\<open>destroy\<close> is caught by an empty handler.\<close>

definition cleanup_A :: "answers \<Rightarrow> state_A \<Rightarrow> string \<Rightarrow> state_A" where
  "cleanup_A env s clientId =
     (let s1 = (case whatsappClients s clientId of
                  None \<Rightarrow> s
                | Some client \<Rightarrow>
                    emit [Logout client, logout_logged env clientId, Sleep 3000,
                          Destroy client, Sleep 2500] s)
      in cleanup_tail_A env s1 clientId)"

text \<open>The same function cut at its four \<^verbatim>\<open>await\<close>s. Between two pieces any other handler
  of the process may run. \<open>cleanup_begin_A\<close> is the call up to the first \<^verbatim>\<open>await\<close>;
  \<open>cleanup_resume_A\<close> continues a suspended invocation up to its next one.\<close>

datatype cleanup_pc =
    AwaitLogout handle
  | Sleep3000 handle
  | AwaitDestroy handle
  | Sleep2500
  | Finished

definition cleanup_begin_A :: "answers \<Rightarrow> state_A \<Rightarrow> string \<Rightarrow> state_A \<times> cleanup_pc" where
  "cleanup_begin_A env s clientId =
     (case whatsappClients s clientId of
        None \<Rightarrow> (cleanup_tail_A env s clientId, Finished)
      | Some client \<Rightarrow> (emit [Logout client] s, AwaitLogout client))"

fun cleanup_resume_A :: "answers \<Rightarrow> cleanup_pc \<Rightarrow> state_A \<Rightarrow> string \<Rightarrow> state_A \<times> cleanup_pc" where
  "cleanup_resume_A env (AwaitLogout client) s clientId =
     (emit [logout_logged env clientId, Sleep 3000] s, Sleep3000 client)"
| "cleanup_resume_A env (Sleep3000 client) s clientId =
     (emit [Destroy client] s, AwaitDestroy client)"
| "cleanup_resume_A env (AwaitDestroy client) s clientId =
     (emit [Sleep 2500] s, Sleep2500)"
| "cleanup_resume_A env Sleep2500 s clientId =
     (cleanup_tail_A env s clientId, Finished)"
| "cleanup_resume_A env Finished s clientId = (s, Finished)"

text \<open>The handlers that \<^verbatim>\<open>connect\<close> registers on a client (server.js lines 104-146);
  \<open>clientId\<close> and \<open>client\<close> are the variables their closures captured. The last two call
  \<^verbatim>\<open>cleanup\<close> without awaiting it: they return with the invocation suspended.\<close>

definition qr_A :: "(string \<Rightarrow> string option) \<Rightarrow> state_A \<Rightarrow> string \<Rightarrow> string \<Rightarrow> state_A" where
  "qr_A toDataURL s clientId raw =
     (case toDataURL raw of
        Some qrDataUrl \<Rightarrow>
          emit [Console Log (tag clientId ''QR generated'')]
            (s\<lparr>qrCodes := (qrCodes s)(clientId \<mapsto> qrDataUrl)\<rparr>)
      | None \<Rightarrow> emit [Console Err ''QR generation error:''] s)"

definition ready_A :: "state_A \<Rightarrow> string \<Rightarrow> handle \<Rightarrow> state_A" where
  "ready_A s clientId client =
     (let s1 = emit [Console Log (tag clientId ''WhatsApp ready'')] s;
          s2 = s1\<lparr>qrCodes := (qrCodes s1)(clientId := None)\<rparr>;
          ph = or_null (info s2 client);
          s3 = s2\<lparr>connectionStatus := (connectionStatus s2)
                     (clientId \<mapsto> \<lparr>connected = True, phone = ph, authenticating = None\<rparr>)\<rparr>
      in notifyPhpBackend clientId ''connected'' ph s3)"

definition authenticated_A :: "state_A \<Rightarrow> string \<Rightarrow> state_A" where
  "authenticated_A s clientId =
     (let s1 = emit [Console Log (tag clientId ''Authenticated'')] s;
          current = (case connectionStatus s1 clientId of None \<Rightarrow> default_status | Some st \<Rightarrow> st)
      in s1\<lparr>connectionStatus := (connectionStatus s1)
                (clientId \<mapsto> current\<lparr>authenticating := Some True\<rparr>)\<rparr>)"

definition auth_failure_A :: "answers \<Rightarrow> state_A \<Rightarrow> string \<Rightarrow> state_A \<times> cleanup_pc" where
  "auth_failure_A env s clientId =
     cleanup_begin_A env (emit [Console Err (tag clientId ''Auth failure:'')] s) clientId"

definition disconnected_A :: "answers \<Rightarrow> state_A \<Rightarrow> string \<Rightarrow> state_A \<times> cleanup_pc" where
  "disconnected_A env s clientId =
     (case cleanup_begin_A env (emit [Console Log (tag clientId ''Disconnected:'')] s) clientId of
        (s1, pc) \<Rightarrow> (notifyPhpBackend clientId ''disconnected'' None s1, pc))"

text \<open>\<^verbatim>\<open>POST /api/whatsapp/disconnect\<close> (server.js lines 356-378). Nothing inside its
  \<^verbatim>\<open>try\<close> throws, \<^verbatim>\<open>cleanup\<close> catching every failure of its own, so the handler of the
  \<^verbatim>\<open>catch\<close> has no branch here. \<open>disconnect_A\<close> is the route with \<^verbatim>\<open>cleanup\<close> run in one
  piece; \<open>disconnect_begin_A\<close> and \<open>disconnect_end_A\<close> are the route before and after
  \<^verbatim>\<open>await cleanup(clientId)\<close>.\<close>

definition disconnect_end_A :: "state_A \<Rightarrow> string \<Rightarrow> state_A \<times> response" where
  "disconnect_end_A s clientId =
     (notifyPhpBackend clientId ''disconnected'' None s, (200, [(''success'', JBool True)]))"

definition disconnect_A :: "answers \<Rightarrow> state_A \<Rightarrow> string option \<Rightarrow> state_A \<times> response" where
  "disconnect_A env s account_id =
     (if \<not> truthy account_id then (s, (400, [(''error'', JStr ''Account ID required'')]))
      else
        let clientId = String account_id;
            s1 = emit [Console Log (tag clientId ''Disconnect requested via API'')] s;
            s2 = cleanup_A env s1 clientId
        in disconnect_end_A s2 clientId)"

definition disconnect_begin_A :: "answers \<Rightarrow> state_A \<Rightarrow> string \<Rightarrow> state_A \<times> cleanup_pc" where
  "disconnect_begin_A env s clientId =
     cleanup_begin_A env (emit [Console Log (tag clientId ''Disconnect requested via API'')] s) clientId"

subsection \<open>The event loop of program A\<close>

text \<open>Handlers run one at a time, each up to its next \<^verbatim>\<open>await\<close>. A \<open>proc\<close> is a handler
  suspended at an \<^verbatim>\<open>await\<close>: an invocation of \<^verbatim>\<open>cleanup\<close> (the flag says that the disconnect
  route called it and will notify and answer when it returns), or the \<^verbatim>\<open>qr\<close> handler
  waiting for the renderer. An event is an HTTP request, an event of a client (named by
  its handle; \<open>Ready\<close> carries the \<^verbatim>\<open>info.wid.user\<close> that the library has just set), or
  \<open>Resume i\<close>: the i-th suspended handler continues.\<close>

datatype proc =
    Cleanup answers string cleanup_pc bool
  | Render string string
  | Ended

datatype event_A =
    ReqConnect "string option" outcome
  | ReqStatus "string option"
  | ReqSend "string option" "string option" "string option" outcome
  | ReqDisconnect "string option" answers
  | EvQr handle string
  | EvReady handle string
  | EvAuthenticated handle
  | EvAuthFailure handle answers
  | EvDisconnected handle answers
  | Resume nat

type_synonym sys_A = "state_A \<times> proc list"

definition owner :: "state_A \<Rightarrow> handle \<Rightarrow> string option" where
  "owner s h = (if h < length (created s) then Some (created s ! h) else None)"

definition suspended :: "answers \<Rightarrow> string \<Rightarrow> cleanup_pc \<Rightarrow> bool \<Rightarrow> proc list" where
  "suspended env clientId pc route = (if pc = Finished then [] else [Cleanup env clientId pc route])"

fun resume_A :: "(string \<Rightarrow> string option) \<Rightarrow> proc \<Rightarrow> state_A \<Rightarrow> (state_A \<times> proc) \<times> response option" where
  "resume_A toDataURL (Cleanup env clientId pc route) s =
     (case cleanup_resume_A env pc s clientId of
        (s1, pc1) \<Rightarrow>
          if pc1 = Finished then
            (if route then
               (case disconnect_end_A s1 clientId of (s2, r) \<Rightarrow> ((s2, Ended), Some r))
             else ((s1, Ended), None))
          else ((s1, Cleanup env clientId pc1 route), None))"
| "resume_A toDataURL (Render clientId raw) s = ((qr_A toDataURL s clientId raw, Ended), None)"
| "resume_A toDataURL Ended s = ((s, Ended), None)"

fun step_A :: "(string \<Rightarrow> string option) \<Rightarrow> event_A \<Rightarrow> sys_A \<Rightarrow> sys_A \<times> response option" where
  "step_A toDataURL (ReqConnect account_id ctor) (s, ps) =
     (case connect_A ctor s account_id of (s1, r) \<Rightarrow> ((s1, ps), Some r))"
| "step_A toDataURL (ReqStatus account_id) (s, ps) = ((s, ps), Some (status_A s account_id))"
| "step_A toDataURL (ReqSend account_id ph message sent) (s, ps) =
     (case send_A sent s account_id ph message of (s1, r) \<Rightarrow> ((s1, ps), Some r))"
| "step_A toDataURL (ReqDisconnect account_id env) (s, ps) =
     (if \<not> truthy account_id then ((s, ps), Some (400, [(''error'', JStr ''Account ID required'')]))
      else
        (case disconnect_begin_A env s (String account_id) of
           (s1, pc) \<Rightarrow>
             if pc = Finished then
               (case disconnect_end_A s1 (String account_id) of (s2, r) \<Rightarrow> ((s2, ps), Some r))
             else ((s1, ps @ [Cleanup env (String account_id) pc True]), None)))"
| "step_A toDataURL (EvQr h raw) (s, ps) =
     (case owner s h of
        None \<Rightarrow> ((s, ps), None)
      | Some clientId \<Rightarrow> ((s, ps @ [Render clientId raw]), None))"
| "step_A toDataURL (EvReady h user) (s, ps) =
     (case owner s h of
        None \<Rightarrow> ((s, ps), None)
      | Some clientId \<Rightarrow> ((ready_A (s\<lparr>info := (info s)(h \<mapsto> user)\<rparr>) clientId h, ps), None))"
| "step_A toDataURL (EvAuthenticated h) (s, ps) =
     (case owner s h of
        None \<Rightarrow> ((s, ps), None)
      | Some clientId \<Rightarrow> ((authenticated_A s clientId, ps), None))"
| "step_A toDataURL (EvAuthFailure h env) (s, ps) =
     (case owner s h of
        None \<Rightarrow> ((s, ps), None)
      | Some clientId \<Rightarrow>
          (case auth_failure_A env s clientId of
             (s1, pc) \<Rightarrow> ((s1, ps @ suspended env clientId pc False), None)))"
| "step_A toDataURL (EvDisconnected h env) (s, ps) =
     (case owner s h of
        None \<Rightarrow> ((s, ps), None)
      | Some clientId \<Rightarrow>
          (case disconnected_A env s clientId of
             (s1, pc) \<Rightarrow> ((s1, ps @ suspended env clientId pc False), None)))"
| "step_A toDataURL (Resume i) (s, ps) =
     (if i < length ps then
        (case resume_A toDataURL (ps ! i) s of
           ((s1, p), r) \<Rightarrow> ((s1, ps[i := p]), r))
      else ((s, ps), None))"

fun run_A :: "(string \<Rightarrow> string option) \<Rightarrow> event_A list \<Rightarrow> sys_A \<Rightarrow> sys_A \<times> response list" where
  "run_A toDataURL [] st = (st, [])"
| "run_A toDataURL (e # es) st =
     (case step_A toDataURL e st of
        (st1, r) \<Rightarrow>
          (case run_A toDataURL es st1 of
             (st2, rs) \<Rightarrow> (st2, (case r of None \<Rightarrow> [] | Some x \<Rightarrow> [x]) @ rs)))"

fun payloads :: "event_A list \<Rightarrow> string list" where
  "payloads [] = []"
| "payloads (EvQr h raw # es) = raw # payloads es"
| "payloads (e # es) = payloads es"

section \<open>Program C: \<^verbatim>\<open>src/unnamed/part_000\<close>, whatsapp-web.js\<close>

text \<open>Program C keeps the three maps of program A; its keys are the request's
  \<^verbatim>\<open>account_id\<close> itself. \<^verbatim>\<open>cleanup\<close> is part_000 lines 204-236, \<^verbatim>\<open>disconnect\<close> lines
  182-201: there the logout is outside \<^verbatim>\<open>cleanup\<close> and not guarded.\<close>

definition cleanup_C :: "answers \<Rightarrow> state_A \<Rightarrow> string \<Rightarrow> state_A" where
  "cleanup_C env s accountId =
     (let s0 = (case whatsappClients s accountId of
                  None \<Rightarrow> s
                | Some client \<Rightarrow> emit [Destroy client] s);
          s1 = s0\<lparr>whatsappClients := (whatsappClients s0)(accountId := None)\<rparr>;
          s2 = s1\<lparr>qrCodes := (qrCodes s1)(accountId := None)\<rparr>;
          s3 = s2\<lparr>connectionStatus := (connectionStatus s2)(accountId \<mapsto> default_status)\<rparr>;
          s4 = emit [ExistsSync (sessionPath accountId)] s3
      in if exists_r env then
           (case rm_r env of
              Returns \<Rightarrow>
                emit [RmSync (sessionPath accountId),
                      Console Log (tag accountId ''Session files deleted'')] s4
            | Throws \<Rightarrow>
                emit [RmSync (sessionPath accountId),
                      Console Log (tag accountId ''Could not delete session files:'')] s4)
         else s4)"

definition disconnect_C :: "answers \<Rightarrow> state_A \<Rightarrow> string option \<Rightarrow> state_A \<times> response" where
  "disconnect_C env s account_id =
     (if \<not> truthy account_id then (s, (400, [(''error'', JStr ''Account ID required'')]))
      else
        let accountId = String account_id;
            s1 = (case whatsappClients s accountId of
                    None \<Rightarrow> s
                  | Some client \<Rightarrow> emit [Logout client] s)
        in if whatsappClients s accountId \<noteq> None \<and> logout_r env = Throws then
             (emit [Console Err ''Disconnect error:''] s1,
              (500, [(''error'', JStr ''Failed to disconnect'')]))
           else (cleanup_C env s1 accountId, (200, [(''success'', JBool True)])))"


section \<open>Programs B and D: Baileys\<close>

text \<open>Programs B (\<^verbatim>\<open>src/server.js\<close> from line 480) and D (\<^verbatim>\<open>src/unnamed/part_000\<close> from line
  283) have the same \<^verbatim>\<open>startSession\<close> up to its close handler and the same \<^verbatim>\<open>connect\<close>,
  \<^verbatim>\<open>status\<close>, \<^verbatim>\<open>send\<close> and \<^verbatim>\<open>disconnect\<close> routes, line for line: one definition, suffix
  \<open>BD\<close>, embeds both. They differ in the reconnect branch of the close handler.
  \<open>user_id s sock\<close> is \<^verbatim>\<open>sock.user.id\<close>, \<open>None\<close> while \<^verbatim>\<open>sock.user\<close> is undefined.\<close>

record state_B = server_state +
  sessions :: "string \<rightharpoonup> handle"
  user_id :: "handle \<rightharpoonup> string"

definition init_B :: state_B where
  "init_B = \<lparr>qrCodes = Map.empty, connectionStatus = Map.empty, created = [], trace = [],
             sessions = Map.empty, user_id = Map.empty\<rparr>"

definition authPath :: "string \<Rightarrow> string" where
  "authPath clientId = ''data/auth/session-'' @ clientId"

text \<open>\<^verbatim>\<open>startSession\<close> up to \<^verbatim>\<open>return sock\<close>; \<open>None\<close> is a rejected promise. \<open>auth\<close> and
  \<open>ver\<close> say whether \<^verbatim>\<open>useMultiFileAuthState\<close> and \<^verbatim>\<open>fetchLatestBaileysVersion\<close> throw.\<close>

definition startSession_BD :: "outcome \<Rightarrow> outcome \<Rightarrow> state_B \<Rightarrow> string \<Rightarrow> state_B \<times> handle option" where
  "startSession_BD auth ver s accountId =
     (let clientId = accountId;
          s1 = emit [UseMultiFileAuthState (authPath clientId)] s
      in case auth of
           Throws \<Rightarrow> (s1, None)
         | Returns \<Rightarrow>
             (let s2 = emit [FetchLatestBaileysVersion] s1
              in case ver of
                   Throws \<Rightarrow> (s2, None)
                 | Returns \<Rightarrow>
                     (let sock = length (created s2);
                          s3 = emit [MakeWASocket sock clientId] (s2\<lparr>created := created s2 @ [clientId]\<rparr>);
                          s4 = s3\<lparr>sessions := (sessions s3)(clientId \<mapsto> sock)\<rparr>
                      in (s4, Some sock))))"

text \<open>The argument of a \<^verbatim>\<open>connection.update\<close> event: \<open>statusCode\<close> is
  \<^verbatim>\<open>(lastDisconnect?.error)?.output?.statusCode\<close>, \<open>None\<close> when undefined.\<close>

record update =
  connection :: "string option"
  statusCode :: "int option"
  qr :: "string option"

text \<open>The first part of the handler, the same in B and D (server.js lines 566-574,
  part_000 lines 380-388).\<close>

definition update_qr_BD :: "(string \<Rightarrow> string option) \<Rightarrow> state_B \<Rightarrow> string \<Rightarrow> update \<Rightarrow> state_B" where
  "update_qr_BD toDataURL s clientId u =
     (if truthy (qr u) then
        (case toDataURL (String (qr u)) of
           Some qrDataUrl \<Rightarrow>
             emit [Console Log (tag clientId ''QR generated'')]
               (s\<lparr>qrCodes := (qrCodes s)(clientId \<mapsto> qrDataUrl)\<rparr>)
         | None \<Rightarrow> emit [Console Err ''QR generation error:''] s)
      else s)"

text \<open>The branch for \<^verbatim>\<open>connection === 'open'\<close>, the same in B and D. With \<^verbatim>\<open>sock.user\<close>
  undefined the handler throws after deleting the QR code.\<close>

definition update_open_BD :: "state_B \<Rightarrow> string \<Rightarrow> handle \<Rightarrow> state_B" where
  "update_open_BD s clientId sock =
     (let s1 = emit [Console Log (tag clientId ''WhatsApp connected'')] s;
          s2 = s1\<lparr>qrCodes := (qrCodes s1)(clientId := None)\<rparr>
      in case user_id s2 sock of
           None \<Rightarrow> s2
         | Some uid \<Rightarrow>
             (let ph = takeWhile (\<lambda>c. c \<noteq> CHR '':'') uid;
                  s3 = s2\<lparr>connectionStatus := (connectionStatus s2)
                             (clientId \<mapsto> \<lparr>connected = True, phone = Some ph, authenticating = None\<rparr>)\<rparr>
              in notifyPhpBackend clientId ''connected'' (Some ph) s3))"

text \<open>The terminal branch of a close, the same in B and D. A failing \<^verbatim>\<open>fs.rmSync\<close> is
  caught by an empty handler.\<close>

definition update_loggedOut_BD :: "state_B \<Rightarrow> string \<Rightarrow> state_B" where
  "update_loggedOut_BD s clientId =
     (let s1 = s\<lparr>sessions := (sessions s)(clientId := None)\<rparr>;
          s2 = notifyPhpBackend clientId ''disconnected'' None s1
      in emit [RmSync (authPath clientId)] s2)"

text \<open>The handler of program B (server.js lines 563-602): a close for another reason calls
  \<^verbatim>\<open>startSession(clientId)\<close> at once, without awaiting it. \<open>loggedOut\<close> is the library's
  \<^verbatim>\<open>DisconnectReason.loggedOut\<close>.\<close>

definition connection_update_B ::
  "(string \<Rightarrow> string option) \<Rightarrow> int \<Rightarrow> state_B \<Rightarrow> string \<Rightarrow> handle \<Rightarrow> update \<Rightarrow> state_B" where
  "connection_update_B toDataURL loggedOut s clientId sock u =
     (let s1 = update_qr_BD toDataURL s clientId u
      in if connection u = Some ''close'' then
           (let shouldReconnect = (statusCode u \<noteq> Some loggedOut);
                s2 = emit [Console Log (tag clientId ''Connection closed. Reason:'')] s1;
                s3 = s2\<lparr>qrCodes := (qrCodes s2)(clientId := None)\<rparr>;
                s4 = s3\<lparr>connectionStatus := (connectionStatus s3)(clientId \<mapsto> default_status)\<rparr>
            in if shouldReconnect then emit [Invoke (StartSession clientId)] s4
               else update_loggedOut_BD s4 clientId)
         else if connection u = Some ''open'' then update_open_BD s1 clientId sock
         else s1)"

text \<open>The handler of program D (part_000 lines 377-417): a close for another reason sets
  a timer of 5000 ms whose callback calls \<^verbatim>\<open>startSession(clientId)\<close>.\<close>

definition connection_update_D ::
  "(string \<Rightarrow> string option) \<Rightarrow> int \<Rightarrow> state_B \<Rightarrow> string \<Rightarrow> handle \<Rightarrow> update \<Rightarrow> state_B" where
  "connection_update_D toDataURL loggedOut s clientId sock u =
     (let s1 = update_qr_BD toDataURL s clientId u
      in if connection u = Some ''close'' then
           (let shouldReconnect = (statusCode u \<noteq> Some loggedOut);
                s2 = emit [Console Log (tag clientId ''Connection closed. Reason:'')] s1;
                s3 = s2\<lparr>qrCodes := (qrCodes s2)(clientId := None)\<rparr>;
                s4 = s3\<lparr>connectionStatus := (connectionStatus s3)(clientId \<mapsto> default_status)\<rparr>
            in if shouldReconnect then
                 emit [Console Log (tag clientId ''Reconnecting in 5 seconds...''),
                       SetTimeout (StartSession clientId) 5000] s4
               else update_loggedOut_BD s4 clientId)
         else if connection u = Some ''open'' then update_open_BD s1 clientId sock
         else s1)"

text \<open>What a task does when the event loop runs it: the timer's callback of program D, and
  the call that program B makes at once.\<close>

fun run_task :: "outcome \<Rightarrow> outcome \<Rightarrow> state_B \<Rightarrow> task \<Rightarrow> state_B \<times> handle option" where
  "run_task auth ver s (StartSession clientId) = startSession_BD auth ver s clientId"

text \<open>The routes \<^verbatim>\<open>connect\<close>, \<^verbatim>\<open>status\<close> and \<^verbatim>\<open>send\<close> (server.js lines 609-669, part_000
  lines 512-572).\<close>

definition connect_BD :: "outcome \<Rightarrow> outcome \<Rightarrow> state_B \<Rightarrow> string option \<Rightarrow> state_B \<times> response" where
  "connect_BD auth ver s account_id =
     (if \<not> truthy account_id then (s, (400, [(''error'', JStr ''Account ID required'')]))
      else
        let clientId = String account_id;
            status = (if sessions s clientId \<noteq> None then connectionStatus s clientId else None)
        in case (case status of
                   None \<Rightarrow> None
                 | Some st \<Rightarrow> if connected st then Some (phone st) else None) of
             Some ph \<Rightarrow>
               (s, (200, [(''success'', JBool True), (''connected'', JBool True), (''phone'', jstr ph)]))
           | None \<Rightarrow>
               (case startSession_BD auth ver s clientId of
                  (s1, None) \<Rightarrow>
                    (emit [Console Err ''Connect error:''] s1,
                     (500, [(''error'', JStr ''Failed to start WhatsApp connection'')]))
                | (s1, Some sock) \<Rightarrow>
                    (s1, (200, [(''success'', JBool True), (''message'', JStr ''Connecting...'')]))))"

definition status_BD :: "state_B \<Rightarrow> string option \<Rightarrow> response" where
  "status_BD s account_id =
     (if \<not> truthy account_id then (400, [(''error'', JStr ''Account ID required'')])
      else
        let clientId = String account_id;
            q = or_null (qrCodes s clientId);
            status = (case connectionStatus s clientId of None \<Rightarrow> default_status | Some st \<Rightarrow> st)
        in (200, [(''qr'', jstr q), (''connected'', JBool (connected status)),
                  (''authenticating'',
                     JBool (\<not> connected status \<and> q = None \<and> sessions s clientId \<noteq> None)),
                  (''phone'', jstr (phone status))]))"

definition send_BD ::
  "outcome \<Rightarrow> state_B \<Rightarrow> string option \<Rightarrow> string option \<Rightarrow> string option \<Rightarrow> state_B \<times> response" where
  "send_BD sent s account_id ph message =
     (if \<not> truthy account_id \<or> \<not> truthy ph \<or> \<not> truthy message
      then (s, (400, [(''error'', JStr ''Missing fields'')]))
      else
        case sessions s (String account_id) of
          None \<Rightarrow> (s, (400, [(''error'', JStr ''WhatsApp not connected'')]))
        | Some sock \<Rightarrow>
            (let jid = digits_only (String ph) @ ''@s.whatsapp.net'';
                 s1 = emit [SendMessage sock jid (String message)] s
             in (case sent of
                   Throws \<Rightarrow>
                     (emit [Console Err ''Send error:''] s1,
                      (500, [(''error'', JStr ''Failed to send'')]))
                 | Returns \<Rightarrow>
                     (s1, (200, [(''success'', JBool True), (''message'', JStr ''Message sent'')])))))"

text \<open>\<^verbatim>\<open>POST /api/whatsapp/disconnect\<close> of B and D (server.js lines 742-758): no check of
  \<^verbatim>\<open>account_id\<close>, and a throwing \<^verbatim>\<open>sock.logout()\<close> leaves the \<^verbatim>\<open>try\<close> before
  \<^verbatim>\<open>sessions.delete\<close>.\<close>

definition disconnect_BD :: "outcome \<Rightarrow> state_B \<Rightarrow> string option \<Rightarrow> state_B \<times> response" where
  "disconnect_BD lo s account_id =
     (let clientId = String account_id
      in case sessions s clientId of
           None \<Rightarrow>
             (notifyPhpBackend clientId ''disconnected'' None s, (200, [(''success'', JBool True)]))
         | Some sock \<Rightarrow>
             (let s1 = emit [Logout sock] s
              in (case lo of
                    Throws \<Rightarrow> (s1, (500, [(''error'', JStr ''Failed to disconnect'')]))
                  | Returns \<Rightarrow>
                      (let s2 = s1\<lparr>sessions := (sessions s1)(clientId := None)\<rparr>
                       in (notifyPhpBackend clientId ''disconnected'' None s2,
                           (200, [(''success'', JBool True)]))))))"


section \<open>Vocabulary of the properties\<close>

text \<open>An account is unknown when none of the three maps has an entry for it; the answer
  of \<^verbatim>\<open>status\<close> for a disconnected account.\<close>

definition unknown_A :: "state_A \<Rightarrow> string \<Rightarrow> bool" where
  "unknown_A s clientId =
     (whatsappClients s clientId = None \<and> qrCodes s clientId = None \<and>
      connectionStatus s clientId = None)"

definition unknown_BD :: "state_B \<Rightarrow> string \<Rightarrow> bool" where
  "unknown_BD s clientId =
     (sessions s clientId = None \<and> qrCodes s clientId = None \<and>
      connectionStatus s clientId = None)"

definition default_shape :: response where
  "default_shape = (200, [(''qr'', JNull), (''connected'', JBool False),
                         (''authenticating'', JBool False), (''phone'', JNull)])"

text \<open>The transport objects constructed, the calls on a transport that tear it down, and
  the retries, as they appear in a trace.\<close>

fun is_construction :: "effect \<Rightarrow> bool" where
  "is_construction (NewClient h c) = True"
| "is_construction (MakeWASocket h c) = True"
| "is_construction e = False"

fun is_teardown_call :: "effect \<Rightarrow> bool" where
  "is_teardown_call (Logout h) = True"
| "is_teardown_call (Destroy h) = True"
| "is_teardown_call e = False"

fun is_retry :: "effect \<Rightarrow> bool" where
  "is_retry (SetTimeout t ms) = True"
| "is_retry (Invoke t) = True"
| "is_retry e = False"

fun is_console :: "effect \<Rightarrow> bool" where
  "is_console (Console l m) = True"
| "is_console e = False"

fun is_send :: "effect \<Rightarrow> bool" where
  "is_send (SendMessage h d m) = True"
| "is_send e = False"

text \<open>Concrete situations: every outside call succeeds; account \<open>acct1\<close> right after its
  first \<^verbatim>\<open>connect\<close> (mid-handshake), in either family of programs.\<close>

definition all_ok :: answers where
  "all_ok = \<lparr>logout_r = Returns, destroy_r = Returns, exists_r = True, rm_r = Returns\<rparr>"

definition handshake_A :: state_A where
  "handshake_A = fst (connect_A Returns init_A (Some ''acct1''))"

definition handshake_BD :: state_B where
  "handshake_BD = fst (connect_BD Returns Returns init_B (Some ''acct1''))"

text \<open>Account \<open>acct1\<close> connected: after its client's \<^verbatim>\<open>ready\<close> event in program A, after
  the socket's \<^verbatim>\<open>open\<close> update in programs B and D.\<close>

definition connected_A :: state_A where
  "connected_A = ready_A (handshake_A\<lparr>info := [0 \<mapsto> ''15551234567'']\<rparr>) ''acct1'' 0"

definition connected_BD :: state_B where
  "connected_BD =
     update_open_BD (handshake_BD\<lparr>user_id := [0 \<mapsto> ''15551234567:3@s.whatsapp.net'']\<rparr>) ''acct1'' 0"

text \<open>For concrete runs: a renderer that prefixes the payload the way a PNG data URL
  starts, the value 401 for \<^verbatim>\<open>DisconnectReason.loggedOut\<close>, and a close whose status code
  is 428 (another reason than logged out).\<close>

definition render_png :: "string \<Rightarrow> string option" where
  "render_png raw = Some (''data:image/png;base64,'' @ raw)"

definition loggedOut_401 :: int where
  "loggedOut_401 = 401"

definition close_428 :: update where
  "close_428 = \<lparr>connection = Some ''close'', statusCode = Some 428, qr = None\<rparr>"

definition close_loggedOut :: update where
  "close_loggedOut = \<lparr>connection = Some ''close'', statusCode = Some 401, qr = None\<rparr>"

text \<open>Account \<open>acct1\<close> awaiting the scan: mid-handshake, after the transport delivered a
  QR payload and the renderer answered.\<close>

definition qr_update :: update where
  "qr_update = \<lparr>connection = None, statusCode = None, qr = Some ''2@raw-pairing-code''\<rparr>"

definition awaiting_scan_A :: state_A where
  "awaiting_scan_A = qr_A render_png handshake_A ''acct1'' ''2@raw-pairing-code''"

definition awaiting_scan_BD :: state_B where
  "awaiting_scan_BD = connection_update_D render_png loggedOut_401 handshake_BD ''acct1'' 0 qr_update"

fun is_notify :: "effect \<Rightarrow> bool" where
  "is_notify (Notify c st ph) = True"
| "is_notify e = False"

text \<open>A disconnect request racing the client's \<^verbatim>\<open>disconnected\<close> event: the request starts
  \<^verbatim>\<open>cleanup\<close>, which suspends at \<^verbatim>\<open>await client.logout()\<close>; the event arrives and its
  handler starts \<^verbatim>\<open>cleanup\<close> again; then the two invocations continue in turn. The second
  one finds the transport gone (its calls throw) and the directory deleted.\<close>

definition late :: answers where
  "late = \<lparr>logout_r = Throws, destroy_r = Throws, exists_r = False, rm_r = Returns\<rparr>"

definition race_events :: "event_A list" where
  "race_events =
     [ReqConnect (Some ''acct1'') Returns, ReqDisconnect (Some ''acct1'') all_ok,
      EvDisconnected 0 late, Resume 0, Resume 1, Resume 0, Resume 1, Resume 0, Resume 1,
      Resume 0, Resume 1]"

text \<open>The race of claim C8 in program D: the socket of \<open>acct1\<close> closes for another reason
  than logged out, so the retry timer is set; before it fires, a disconnect request
  removes the session.\<close>

definition raced_D :: state_B where
  "raced_D =
     fst (disconnect_BD Returns
            (connection_update_D render_png loggedOut_401 handshake_BD ''acct1'' 0 close_428)
            (Some ''acct1''))"

text \<open>The invariant behind claim C9: every value of the QR map is a rendering of a payload
  of \<open>P\<close>, and every payload that a suspended \<^verbatim>\<open>qr\<close> handler holds is in \<open>P\<close>.\<close>

definition qr_ok :: "(string \<Rightarrow> string option) \<Rightarrow> string set \<Rightarrow> state_A \<Rightarrow> bool" where
  "qr_ok toDataURL P s =
     (\<forall>c u. qrCodes s c = Some u \<longrightarrow> (\<exists>raw\<in>P. toDataURL raw = Some u))"

definition qr_inv :: "(string \<Rightarrow> string option) \<Rightarrow> string set \<Rightarrow> sys_A \<Rightarrow> bool" where
  "qr_inv toDataURL P st =
     (qr_ok toDataURL P (fst st) \<and> (\<forall>c raw. Render c raw \<in> set (snd st) \<longrightarrow> raw \<in> P))"

text \<open>A run in which the payload reaches the status route: connect, the \<^verbatim>\<open>qr\<close> event, the
  renderer's answer, then a status request.\<close>

definition scan_events :: "event_A list" where
  "scan_events =
     [ReqConnect (Some ''acct1'') Returns, EvQr 0 ''2@raw-pairing-code'', Resume 0,
      ReqStatus (Some ''acct1'')]"

text \<open>Teardowns for claim C6: \<^verbatim>\<open>destroy\<close> throws and everything else succeeds; and a run
  in which the client of \<open>acct1\<close> reports an authentication failure and the \<^verbatim>\<open>cleanup\<close> that
  its handler started runs to its end.\<close>

definition destroy_throws :: answers where
  "destroy_throws = \<lparr>logout_r = Returns, destroy_r = Throws, exists_r = True, rm_r = Returns\<rparr>"

definition auth_failure_events :: "event_A list" where
  "auth_failure_events =
     [ReqConnect (Some ''acct1'') Returns, EvAuthFailure 0 all_ok,
      Resume 0, Resume 0, Resume 0, Resume 0]"

definition all_fail :: answers where
  "all_fail = \<lparr>logout_r = Throws, destroy_r = Throws, exists_r = True, rm_r = Throws\<rparr>"

text \<open>Two events, or two suspended handlers, that differ at most in a QR payload, the two
  payloads having the same rendering.\<close>

fun same_rendering :: "(string \<Rightarrow> string option) \<Rightarrow> event_A \<Rightarrow> event_A \<Rightarrow> bool" where
  "same_rendering toDataURL (EvQr h raw) (EvQr h' raw') = (h = h' \<and> toDataURL raw = toDataURL raw')"
| "same_rendering toDataURL e e' = (e = e')"

fun same_proc :: "(string \<Rightarrow> string option) \<Rightarrow> proc \<Rightarrow> proc \<Rightarrow> bool" where
  "same_proc toDataURL (Render c raw) (Render c' raw') = (c = c' \<and> toDataURL raw = toDataURL raw')"
| "same_proc toDataURL p p' = (p = p')"

text \<open>A renderer that draws the same picture for every payload, and the run
  \<open>scan_events\<close> with another payload.\<close>

definition render_blank :: "string \<Rightarrow> string option" where
  "render_blank raw = Some ''data:image/png;base64,iVBORw0KGgo=''"

definition scan_events' :: "event_A list" where
  "scan_events' =
     [ReqConnect (Some ''acct1'') Returns, EvQr 0 ''2@another-pairing-code'', Resume 0,
      ReqStatus (Some ''acct1'')]"

section \<open>Properties\<close>

subsection \<open>What the pieces leave unchanged\<close>

lemma emit_fields [simp]:
  "qrCodes (emit es s) = qrCodes s"
  "connectionStatus (emit es s) = connectionStatus s"
  "created (emit es s) = created s"
  "trace (emit es s) = trace s @ es"
  by (simp_all add: emit_def)

lemma emit_fields_A [simp]:
  "whatsappClients (emit es s) = whatsappClients s"
  "info (emit es s) = info s"
  by (simp_all add: emit_def)

lemma emit_fields_B [simp]:
  "sessions (emit es s) = sessions s"
  "user_id (emit es s) = user_id s"
  by (simp_all add: emit_def)

lemma cleanup_tail_A_maps:
  "whatsappClients (cleanup_tail_A env s c) = (whatsappClients s)(c := None)"
  "qrCodes (cleanup_tail_A env s c) = (qrCodes s)(c := None)"
  "connectionStatus (cleanup_tail_A env s c) = (connectionStatus s)(c \<mapsto> default_status)"
  "info (cleanup_tail_A env s c) = info s"
  "created (cleanup_tail_A env s c) = created s"
  by (simp_all add: cleanup_tail_A_def Let_def split: outcome.splits)

lemma cleanup_A_maps:
  "whatsappClients (cleanup_A env s c) = (whatsappClients s)(c := None)"
  "qrCodes (cleanup_A env s c) = (qrCodes s)(c := None)"
  "connectionStatus (cleanup_A env s c) = (connectionStatus s)(c \<mapsto> default_status)"
  "info (cleanup_A env s c) = info s"
  "created (cleanup_A env s c) = created s"
  by (simp_all add: cleanup_A_def Let_def cleanup_tail_A_maps split: option.splits)

lemma cleanup_C_maps:
  "whatsappClients (cleanup_C env s c) = (whatsappClients s)(c := None)"
  "qrCodes (cleanup_C env s c) = (qrCodes s)(c := None)"
  "connectionStatus (cleanup_C env s c) = (connectionStatus s)(c \<mapsto> default_status)"
  "info (cleanup_C env s c) = info s"
  "created (cleanup_C env s c) = created s"
  by (simp_all add: cleanup_C_def Let_def split: option.splits outcome.splits)

lemma handshake_A_maps:
  "whatsappClients handshake_A = [''acct1'' \<mapsto> 0]"
  "qrCodes handshake_A = Map.empty"
  "connectionStatus handshake_A = [''acct1'' \<mapsto> default_status]"
  "info handshake_A = Map.empty"
  "created handshake_A = [''acct1'']"
  "trace handshake_A = [NewClient 0 ''acct1'', Initialize 0]"
  by (simp_all add: handshake_A_def connect_A_def init_A_def truthy_def String_def Let_def)

lemma handshake_BD_maps:
  "sessions handshake_BD = [''acct1'' \<mapsto> 0]"
  "qrCodes handshake_BD = Map.empty"
  "connectionStatus handshake_BD = Map.empty"
  "user_id handshake_BD = Map.empty"
  "created handshake_BD = [''acct1'']"
  "trace handshake_BD =
     [UseMultiFileAuthState (authPath ''acct1''), FetchLatestBaileysVersion, MakeWASocket 0 ''acct1'']"
  by (simp_all add: handshake_BD_def connect_BD_def startSession_BD_def init_B_def truthy_def
      String_def Let_def)

subsection \<open>Status of an unknown account\<close>

text \<open>
  Claim C7. For an account id that is present in the request and unknown to the registry
  (no entry in the client or session map, the QR map and the status map), \<^verbatim>\<open>status\<close>
  answers with code 200 and the body \<^verbatim>\<open>{qr: null, connected: false, authenticating: false,
  phone: null}\<close>, in program A and in programs B and D; it never answers with an error.
  (A request without \<^verbatim>\<open>account_id\<close>, or with an empty one, is answered 400.)
\<close>

theorem status_unknown_default:
  assumes "truthy account_id"
  shows "(unknown_A s (String account_id) \<longrightarrow> status_A s account_id = default_shape) \<and>
         (unknown_BD t (String account_id) \<longrightarrow> status_BD t account_id = default_shape)"
  using assms
  by (simp add: status_A_def status_BD_def unknown_A_def unknown_BD_def default_shape_def
      or_null_def truthy_def jstr_def default_status_def)

theorem status_unknown_default_witness:
  "truthy (Some ''acct2'') \<and> unknown_A handshake_A ''acct2'' \<and> unknown_BD handshake_BD ''acct2'' \<and>
   status_A handshake_A (Some ''acct2'') = default_shape \<and>
   status_BD handshake_BD (Some ''acct2'') = default_shape \<and>
   fst default_shape = 200 \<and>
   field default_shape ''qr'' = Some JNull \<and>
   field default_shape ''connected'' = Some (JBool False) \<and>
   field default_shape ''phone'' = Some JNull"
  using status_unknown_default [of "Some ''acct2''" handshake_A handshake_BD]
  by (simp add: truthy_def String_def unknown_A_def unknown_BD_def handshake_A_maps
      handshake_BD_maps default_shape_def field_def)

subsection \<open>What cleanup leaves in the maps\<close>

lemma status_A_after_reset:
  assumes "c \<noteq> []" "whatsappClients s c = None" "qrCodes s c = None"
    "connectionStatus s c = Some default_status"
  shows "status_A s (Some c) = default_shape"
  using assms
  by (simp add: status_A_def default_shape_def truthy_def String_def or_null_def jstr_def
      default_status_def)

lemma torn_down_kept_A:
  "set cs \<subseteq> dom (connectionStatus (fold (\<lambda>c s. cleanup_A env s c) cs s)) \<and>
   dom (connectionStatus s) \<subseteq> dom (connectionStatus (fold (\<lambda>c s. cleanup_A env s c) cs s))"
proof (induction cs arbitrary: s)
  case Nil
  show ?case by simp
next
  case (Cons c cs)
  have "c \<in> dom (connectionStatus (cleanup_A env s c))"
    by (simp add: cleanup_A_maps)
  moreover have "dom (connectionStatus s) \<subseteq> dom (connectionStatus (cleanup_A env s c))"
    by (auto simp: cleanup_A_maps)
  ultimately show ?case
    using Cons.IH [of "cleanup_A env s c"] by (simp add: subset_iff)
qed

text \<open>
  Claim C10. After \<^verbatim>\<open>cleanup(c)\<close> has run to its end, whatever the outside calls answered,
  the client map and the QR map have no entry for \<open>c\<close>, and the status map has the entry
  \<^verbatim>\<open>{connected: false, phone: null}\<close> for \<open>c\<close>: its keys are the former keys and \<open>c\<close>. A
  later \<^verbatim>\<open>status\<close> for \<open>c\<close> answers with the default shape read from that entry, and after
  the accounts of a list \<open>cs\<close> have been torn down one after the other each of them is a
  key of the status map. Programs A and C agree on this.
\<close>

theorem cleanup_keeps_status_entry:
  "whatsappClients (cleanup_A env s c) c = None \<and>
   qrCodes (cleanup_A env s c) c = None \<and>
   connectionStatus (cleanup_A env s c) c = Some default_status \<and>
   dom (connectionStatus (cleanup_A env s c)) = insert c (dom (connectionStatus s)) \<and>
   (c \<noteq> [] \<longrightarrow> status_A (cleanup_A env s c) (Some c) = default_shape) \<and>
   set cs \<subseteq> dom (connectionStatus (fold (\<lambda>c s. cleanup_A env s c) cs s)) \<and>
   whatsappClients (cleanup_C env s c) c = None \<and>
   qrCodes (cleanup_C env s c) c = None \<and>
   connectionStatus (cleanup_C env s c) c = Some default_status \<and>
   dom (connectionStatus (cleanup_C env s c)) = insert c (dom (connectionStatus s))"
proof -
  have "c \<noteq> [] \<longrightarrow> status_A (cleanup_A env s c) (Some c) = default_shape"
    by (simp add: status_A_after_reset cleanup_A_maps)
  then show ?thesis
    using torn_down_kept_A [of cs env s]
    by (simp add: cleanup_A_maps cleanup_C_maps)
qed

theorem cleanup_keeps_status_entry_witness:
  "''acct1'' \<noteq> [] \<and>
   whatsappClients handshake_A ''acct1'' = Some 0 \<and>
   whatsappClients (cleanup_A all_ok handshake_A ''acct1'') ''acct1'' = None \<and>
   connectionStatus (cleanup_A all_ok handshake_A ''acct1'') ''acct1'' = Some default_status \<and>
   status_A (cleanup_A all_ok handshake_A ''acct1'') (Some ''acct1'') = default_shape \<and>
   dom (connectionStatus (cleanup_A all_ok init_A ''acct9'')) = {''acct9''}"
  using cleanup_keeps_status_entry [of all_ok handshake_A "''acct1''" "[]"]
    cleanup_keeps_status_entry [of all_ok init_A "''acct9''" "[]"]
  by (simp add: handshake_A_maps init_A_def)

lemma connected_A_maps:
  "whatsappClients connected_A = [''acct1'' \<mapsto> 0]"
  "qrCodes connected_A = Map.empty"
  "connectionStatus connected_A =
     [''acct1'' \<mapsto> \<lparr>connected = True, phone = Some ''15551234567'', authenticating = None\<rparr>]"
  "info connected_A = [0 \<mapsto> ''15551234567'']"
  "created connected_A = [''acct1'']"
  by (simp_all add: connected_A_def ready_A_def handshake_A_maps notifyPhpBackend_def Let_def
      or_null_def truthy_def)

lemma connected_BD_maps:
  "sessions connected_BD = [''acct1'' \<mapsto> 0]"
  "qrCodes connected_BD = Map.empty"
  "connectionStatus connected_BD =
     [''acct1'' \<mapsto> \<lparr>connected = True, phone = Some ''15551234567'', authenticating = None\<rparr>]"
  "created connected_BD = [''acct1'']"
  by (simp_all add: connected_BD_def update_open_BD_def handshake_BD_maps notifyPhpBackend_def
      Let_def)

subsection \<open>Connect and the number of transports\<close>

text \<open>
  Claim C1, as stated, fails: a second \<^verbatim>\<open>connect\<close> for an account whose session is still
  mid-handshake constructs a second transport and registers it in place of the first, in
  program A and in programs B and D. Both states below are reached by one \<^verbatim>\<open>connect\<close> for
  the new account \<open>acct1\<close>.
\<close>

theorem connect_twice_two_transports:
  "filter is_construction (trace (fst (connect_A Returns handshake_A (Some ''acct1'')))) =
     [NewClient 0 ''acct1'', NewClient 1 ''acct1''] \<and>
   whatsappClients (fst (connect_A Returns handshake_A (Some ''acct1''))) ''acct1'' = Some 1 \<and>
   filter is_construction (trace (fst (connect_BD Returns Returns handshake_BD (Some ''acct1'')))) =
     [MakeWASocket 0 ''acct1'', MakeWASocket 1 ''acct1''] \<and>
   sessions (fst (connect_BD Returns Returns handshake_BD (Some ''acct1''))) ''acct1'' = Some 1"
  by (simp add: connect_A_def connect_BD_def startSession_BD_def handshake_A_maps
      handshake_BD_maps truthy_def String_def Let_def)

lemma connect_A_ready:
  assumes "truthy account_id" "whatsappClients s (String account_id) = Some c" "info s c = Some user"
  shows "connect_A ctor s account_id =
           (s, (200, [(''success'', JBool True), (''connected'', JBool True), (''phone'', JStr user)]))"
  using assms by (simp add: connect_A_def Let_def)

lemma connect_A_fresh:
  assumes "truthy account_id"
    "\<forall>c. whatsappClients s (String account_id) = Some c \<longrightarrow> info s c = None"
  shows "trace (fst (connect_A Returns s account_id)) =
           trace s @ [NewClient (length (created s)) (String account_id),
                      Initialize (length (created s))] \<and>
         whatsappClients (fst (connect_A Returns s account_id)) (String account_id) =
           Some (length (created s)) \<and>
         snd (connect_A Returns s account_id) =
           (200, [(''success'', JBool True), (''message'', JStr ''Connecting...'')])"
  using assms by (auto simp add: connect_A_def Let_def split: option.splits)

lemma connect_BD_ready:
  assumes "truthy account_id" "sessions t (String account_id) = Some k"
    "connectionStatus t (String account_id) = Some st" "connected st"
  shows "connect_BD auth ver t account_id =
           (t, (200, [(''success'', JBool True), (''connected'', JBool True),
                      (''phone'', jstr (phone st))]))"
  using assms by (simp add: connect_BD_def Let_def)

lemma connect_BD_fresh:
  assumes "truthy account_id"
    "sessions t (String account_id) = None \<or>
     (\<forall>st. connectionStatus t (String account_id) = Some st \<longrightarrow> \<not> connected st)"
  shows "trace (fst (connect_BD Returns Returns t account_id)) =
           trace t @ [UseMultiFileAuthState (authPath (String account_id)),
                      FetchLatestBaileysVersion,
                      MakeWASocket (length (created t)) (String account_id)] \<and>
         sessions (fst (connect_BD Returns Returns t account_id)) (String account_id) =
           Some (length (created t)) \<and>
         snd (connect_BD Returns Returns t account_id) =
           (200, [(''success'', JBool True), (''message'', JStr ''Connecting...'')])"
  using assms
  by (auto simp add: connect_BD_def startSession_BD_def Let_def split: option.splits)

text \<open>
  Claim C1, amended. \<^verbatim>\<open>connect\<close> is idempotent for a connected account only. When the
  account's registered transport is ready (program A: its client has \<^verbatim>\<open>info\<close>; programs B
  and D: a socket is registered and the status record says connected), \<^verbatim>\<open>connect\<close> answers
  \<^verbatim>\<open>{success, connected: true, phone}\<close> and leaves the state as it was, so no transport is
  constructed. In every other case, an unknown account or a session mid-handshake, each
  \<^verbatim>\<open>connect\<close> whose outside calls succeed constructs exactly one new transport, registers
  it under the account in place of any earlier one, and answers "Connecting...".
\<close>

theorem connect_idempotent_when_connected:
  assumes "truthy account_id"
  shows
    "(\<forall>c user. whatsappClients s (String account_id) = Some c \<and> info s c = Some user \<longrightarrow>
        connect_A ctor s account_id =
          (s, (200, [(''success'', JBool True), (''connected'', JBool True), (''phone'', JStr user)]))) \<and>
     ((\<forall>c. whatsappClients s (String account_id) = Some c \<longrightarrow> info s c = None) \<longrightarrow>
        trace (fst (connect_A Returns s account_id)) =
          trace s @ [NewClient (length (created s)) (String account_id),
                     Initialize (length (created s))] \<and>
        whatsappClients (fst (connect_A Returns s account_id)) (String account_id) =
          Some (length (created s)) \<and>
        snd (connect_A Returns s account_id) =
          (200, [(''success'', JBool True), (''message'', JStr ''Connecting...'')])) \<and>
     (\<forall>k st. sessions t (String account_id) = Some k \<and>
        connectionStatus t (String account_id) = Some st \<and> connected st \<longrightarrow>
        connect_BD auth ver t account_id =
          (t, (200, [(''success'', JBool True), (''connected'', JBool True),
                     (''phone'', jstr (phone st))]))) \<and>
     (sessions t (String account_id) = None \<or>
      (\<forall>st. connectionStatus t (String account_id) = Some st \<longrightarrow> \<not> connected st) \<longrightarrow>
        trace (fst (connect_BD Returns Returns t account_id)) =
          trace t @ [UseMultiFileAuthState (authPath (String account_id)),
                     FetchLatestBaileysVersion,
                     MakeWASocket (length (created t)) (String account_id)] \<and>
        sessions (fst (connect_BD Returns Returns t account_id)) (String account_id) =
          Some (length (created t)) \<and>
        snd (connect_BD Returns Returns t account_id) =
          (200, [(''success'', JBool True), (''message'', JStr ''Connecting...'')]))"
  using connect_A_ready [OF assms] connect_A_fresh [OF assms] connect_BD_ready [OF assms]
    connect_BD_fresh [OF assms]
  by blast

theorem connect_idempotent_when_connected_witness:
  "truthy (Some ''acct1'') \<and>
   connect_A Throws connected_A (Some ''acct1'') =
     (connected_A, (200, [(''success'', JBool True), (''connected'', JBool True),
                          (''phone'', JStr ''15551234567'')])) \<and>
   trace (fst (connect_A Returns handshake_A (Some ''acct1''))) =
     [NewClient 0 ''acct1'', Initialize 0, NewClient 1 ''acct1'', Initialize 1] \<and>
   connect_BD Throws Throws connected_BD (Some ''acct1'') =
     (connected_BD, (200, [(''success'', JBool True), (''connected'', JBool True),
                           (''phone'', JStr ''15551234567'')])) \<and>
   filter is_construction (trace (fst (connect_BD Returns Returns handshake_BD (Some ''acct1'')))) =
     [MakeWASocket 0 ''acct1'', MakeWASocket 1 ''acct1'']"
  using connect_idempotent_when_connected
      [of "Some ''acct1''" connected_A Throws connected_BD Throws Throws]
    connect_idempotent_when_connected
      [of "Some ''acct1''" handshake_A Returns handshake_BD Returns Returns]
  by (simp add: truthy_def String_def connected_A_maps connected_BD_maps handshake_A_maps
      handshake_BD_maps jstr_def authPath_def)

lemma awaiting_scan_A_maps:
  "whatsappClients awaiting_scan_A = [''acct1'' \<mapsto> 0]"
  "qrCodes awaiting_scan_A = [''acct1'' \<mapsto> ''data:image/png;base64,2@raw-pairing-code'']"
  "connectionStatus awaiting_scan_A = [''acct1'' \<mapsto> default_status]"
  "info awaiting_scan_A = Map.empty"
  "created awaiting_scan_A = [''acct1'']"
  by (simp_all add: awaiting_scan_A_def qr_A_def render_png_def handshake_A_maps)

lemma awaiting_scan_BD_maps:
  "sessions awaiting_scan_BD = [''acct1'' \<mapsto> 0]"
  "qrCodes awaiting_scan_BD = [''acct1'' \<mapsto> ''data:image/png;base64,2@raw-pairing-code'']"
  "connectionStatus awaiting_scan_BD = Map.empty"
  "created awaiting_scan_BD = [''acct1'']"
  by (simp_all add: awaiting_scan_BD_def connection_update_D_def update_qr_BD_def qr_update_def
      render_png_def truthy_def String_def handshake_BD_maps)

subsection \<open>The close of a connection\<close>

lemma update_qr_BD_fields:
  "sessions (update_qr_BD f s c u) = sessions s"
  "connectionStatus (update_qr_BD f s c u) = connectionStatus s"
  "created (update_qr_BD f s c u) = created s"
  "filter is_retry (trace (update_qr_BD f s c u)) = filter is_retry (trace s)"
  by (simp_all add: update_qr_BD_def split: option.splits)

text \<open>Program D does what claim C2 says: a close for another reason than logged out adds
  exactly one retry, a timer of 5000 ms, whatever the state; a close for the logged-out
  reason adds none, in B and in D, and removes the session.\<close>

lemma close_D_retry:
  assumes "connection u = Some ''close''" "statusCode u \<noteq> Some lo"
  shows "filter is_retry (trace (connection_update_D f lo s c k u)) =
           filter is_retry (trace s) @ [SetTimeout (StartSession c) 5000] \<and>
         sessions (connection_update_D f lo s c k u) = sessions s"
  using assms by (simp add: connection_update_D_def Let_def update_qr_BD_fields)

lemma close_B_retry:
  assumes "connection u = Some ''close''" "statusCode u \<noteq> Some lo"
  shows "filter is_retry (trace (connection_update_B f lo s c k u)) =
           filter is_retry (trace s) @ [Invoke (StartSession c)] \<and>
         sessions (connection_update_B f lo s c k u) = sessions s"
  using assms by (simp add: connection_update_B_def Let_def update_qr_BD_fields)

lemma close_loggedOut_terminal:
  assumes "connection u = Some ''close''" "statusCode u = Some lo"
  shows "filter is_retry (trace (connection_update_D f lo s c k u)) = filter is_retry (trace s) \<and>
         sessions (connection_update_D f lo s c k u) c = None \<and>
         filter is_retry (trace (connection_update_B f lo s c k u)) = filter is_retry (trace s) \<and>
         sessions (connection_update_B f lo s c k u) c = None"
  using assms
  by (simp add: connection_update_D_def connection_update_B_def update_loggedOut_BD_def
      notifyPhpBackend_def Let_def update_qr_BD_fields)

text \<open>
  Claim C2 against program B. The socket of \<open>acct1\<close> closes with status code 428, not the
  logged-out code. Program B's handler logs the close and calls \<^verbatim>\<open>startSession\<close> at once:
  no timer is set and there is no delay. Program D's handler, on the same input, sets the
  one timer of 5000 ms that the claim describes. A close with the logged-out code makes
  program B remove the session and retry nothing, as the claim says.
\<close>

theorem close_B_retries_at_once:
  "trace (connection_update_B render_png loggedOut_401 handshake_BD ''acct1'' 0 close_428) =
     trace handshake_BD @
       [Console Log ''[acct1] Connection closed. Reason:'', Invoke (StartSession ''acct1'')] \<and>
   filter is_retry
     (trace (connection_update_D render_png loggedOut_401 handshake_BD ''acct1'' 0 close_428)) =
     [SetTimeout (StartSession ''acct1'') 5000] \<and>
   filter is_retry
     (trace (connection_update_B render_png loggedOut_401 handshake_BD ''acct1'' 0 close_loggedOut)) = [] \<and>
   sessions (connection_update_B render_png loggedOut_401 handshake_BD ''acct1'' 0 close_loggedOut)
     ''acct1'' = None"
  by (simp add: connection_update_B_def connection_update_D_def update_qr_BD_def close_428_def
      close_loggedOut_def update_loggedOut_BD_def notifyPhpBackend_def loggedOut_401_def
      truthy_def tag_def Let_def handshake_BD_maps)

subsection \<open>Send\<close>

text \<open>Program A does what claim C4 says: without a client, or with a client that has no
  \<^verbatim>\<open>info\<close> yet, \<^verbatim>\<open>send\<close> answers 400 and the state, its trace included, is unchanged. In
  every program a failing transport send is answered with an error and changes no map.\<close>

lemma send_A_requires_info:
  assumes "truthy account_id" "truthy ph" "truthy message"
    "\<forall>c. whatsappClients s (String account_id) = Some c \<longrightarrow> info s c = None"
  shows "send_A sent s account_id ph message = (s, (400, [(''error'', JStr ''WhatsApp not connected'')]))"
  using assms by (auto simp add: send_A_def Let_def split: option.splits)

lemma send_failure_keeps_maps:
  "fst (snd (send_A Throws s account_id ph message)) \<noteq> 200 \<and>
   whatsappClients (fst (send_A Throws s account_id ph message)) = whatsappClients s \<and>
   qrCodes (fst (send_A Throws s account_id ph message)) = qrCodes s \<and>
   connectionStatus (fst (send_A Throws s account_id ph message)) = connectionStatus s \<and>
   info (fst (send_A Throws s account_id ph message)) = info s \<and>
   fst (snd (send_BD Throws t account_id ph message)) \<noteq> 200 \<and>
   sessions (fst (send_BD Throws t account_id ph message)) = sessions t \<and>
   qrCodes (fst (send_BD Throws t account_id ph message)) = qrCodes t \<and>
   connectionStatus (fst (send_BD Throws t account_id ph message)) = connectionStatus t"
  by (simp add: send_A_def send_BD_def Let_def split: option.splits)

text \<open>
  Claim C4 against programs B and D. Account \<open>acct1\<close> awaits the scan: its socket is
  registered, \<^verbatim>\<open>status\<close> says \<^verbatim>\<open>connected: false\<close>. \<^verbatim>\<open>send\<close> finds the socket, calls its
  \<^verbatim>\<open>sendMessage\<close> and answers "Message sent". Program A, in the same situation, answers 400
  "WhatsApp not connected" and calls nothing.
\<close>

theorem send_BD_awaiting_scan_calls_transport:
  "field (status_BD awaiting_scan_BD (Some ''acct1'')) ''connected'' = Some (JBool False) \<and>
   send_BD Returns awaiting_scan_BD (Some ''acct1'') (Some ''1555'') (Some ''hi'') =
     (emit [SendMessage 0 ''1555@s.whatsapp.net'' ''hi''] awaiting_scan_BD,
      (200, [(''success'', JBool True), (''message'', JStr ''Message sent'')])) \<and>
   send_A Returns awaiting_scan_A (Some ''acct1'') (Some ''1555'') (Some ''hi'') =
     (awaiting_scan_A, (400, [(''error'', JStr ''WhatsApp not connected'')]))"
  by (simp add: status_BD_def send_BD_def send_A_def awaiting_scan_BD_maps awaiting_scan_A_maps
      field_def truthy_def String_def or_null_def jstr_def default_status_def digits_only_def
      Let_def)

theorem send_BD_awaiting_scan_calls_transport_witness:
  "truthy (Some ''acct1'') \<and> truthy (Some ''1555'') \<and> truthy (Some ''hi'') \<and>
   sessions awaiting_scan_BD ''acct1'' = Some 0 \<and>
   filter is_send
     (trace (fst (send_BD Returns awaiting_scan_BD (Some ''acct1'') (Some ''1555'') (Some ''hi'')))) =
     [SendMessage 0 ''1555@s.whatsapp.net'' ''hi''] \<and>
   filter is_send
     (trace (fst (send_A Returns awaiting_scan_A (Some ''acct1'') (Some ''1555'') (Some ''hi'')))) = []"
  using send_BD_awaiting_scan_calls_transport
  by (simp add: truthy_def awaiting_scan_BD_maps awaiting_scan_BD_def connection_update_D_def
      update_qr_BD_def qr_update_def render_png_def String_def handshake_BD_maps
      awaiting_scan_A_def qr_A_def handshake_A_maps)

subsection \<open>Disconnect\<close>

text \<open>Program A does what claim C5 says: for every answer of the outside calls,
  \<^verbatim>\<open>disconnect\<close> answers success after \<^verbatim>\<open>cleanup\<close> has run to its end, with the account
  out of the client map and the QR map and its status record reset.\<close>

lemma disconnect_A_terminates:
  assumes "truthy account_id"
  shows "snd (disconnect_A env s account_id) = (200, [(''success'', JBool True)]) \<and>
         whatsappClients (fst (disconnect_A env s account_id)) (String account_id) = None \<and>
         qrCodes (fst (disconnect_A env s account_id)) (String account_id) = None \<and>
         connectionStatus (fst (disconnect_A env s account_id)) (String account_id) =
           Some default_status"
  using assms
  by (simp add: disconnect_A_def disconnect_end_A_def notifyPhpBackend_def Let_def cleanup_A_maps)

text \<open>In the event loop the route answers only when the \<^verbatim>\<open>cleanup\<close> it awaits has
  finished: with a client registered the request and the first three continuations give
  no answer, the fourth gives the answer and the state of \<open>disconnect_A\<close>; with no client
  registered \<^verbatim>\<open>cleanup\<close> does not suspend and the request is answered at once.\<close>

lemma disconnect_A_in_loop:
  assumes "truthy a" "whatsappClients s (String a) = Some k"
  shows "snd (run_A f [ReqDisconnect a env, Resume (length ps), Resume (length ps),
                        Resume (length ps)] (s, ps)) = [] \<and>
         run_A f [ReqDisconnect a env, Resume (length ps), Resume (length ps),
                  Resume (length ps), Resume (length ps)] (s, ps) =
           ((fst (disconnect_A env s a), ps @ [Ended]), [snd (disconnect_A env s a)])"
  using assms
  by (simp add: disconnect_begin_A_def cleanup_begin_A_def disconnect_A_def cleanup_A_def
      disconnect_end_A_def notifyPhpBackend_def Let_def emit_def)

lemma disconnect_A_in_loop_absent:
  assumes "truthy a" "whatsappClients s (String a) = None"
  shows "step_A f (ReqDisconnect a env) (s, ps) =
           ((fst (disconnect_A env s a), ps), Some (snd (disconnect_A env s a)))"
  using assms
  by (simp add: disconnect_begin_A_def cleanup_begin_A_def disconnect_A_def cleanup_A_def
      disconnect_end_A_def notifyPhpBackend_def Let_def)

text \<open>
  Claim C5 against programs B and D. Account \<open>acct1\<close> awaits the scan and \<^verbatim>\<open>sock.logout()\<close>
  throws: \<^verbatim>\<open>disconnect\<close> answers 500 "Failed to disconnect" and the socket is still
  registered. Program A, with every outside call failing, answers success with the client
  removed.
\<close>

theorem disconnect_BD_logout_throws:
  "disconnect_BD Throws awaiting_scan_BD (Some ''acct1'') =
     (emit [Logout 0] awaiting_scan_BD, (500, [(''error'', JStr ''Failed to disconnect'')])) \<and>
   sessions (fst (disconnect_BD Throws awaiting_scan_BD (Some ''acct1''))) ''acct1'' = Some 0 \<and>
   snd (disconnect_A all_fail awaiting_scan_A (Some ''acct1'')) = (200, [(''success'', JBool True)]) \<and>
   whatsappClients (fst (disconnect_A all_fail awaiting_scan_A (Some ''acct1''))) ''acct1'' = None"
  by (simp add: disconnect_BD_def disconnect_A_def disconnect_end_A_def notifyPhpBackend_def
      awaiting_scan_BD_maps awaiting_scan_A_maps String_def truthy_def Let_def cleanup_A_maps)

subsection \<open>The retry after a close\<close>

lemma raced_D_maps:
  "sessions raced_D = Map.empty"
  "created raced_D = [''acct1'']"
  "filter is_retry (trace raced_D) = [SetTimeout (StartSession ''acct1'') 5000]"
  "filter is_construction (trace raced_D) = [MakeWASocket 0 ''acct1'']"
  by (simp_all add: raced_D_def disconnect_BD_def connection_update_D_def update_qr_BD_def
      close_428_def loggedOut_401_def truthy_def String_def Let_def notifyPhpBackend_def
      handshake_BD_maps)

text \<open>
  Claim C8, as stated, fails in program D. The socket of \<open>acct1\<close> closed for another reason
  than logged out, the timer is set, and a disconnect request has removed the session.
  When the timer fires, its callback constructs a second socket and registers it under
  \<open>acct1\<close>: the retry is not skipped.
\<close>

theorem retry_resurrects_session:
  "sessions raced_D ''acct1'' = None \<and>
   filter is_retry (trace raced_D) = [SetTimeout (StartSession ''acct1'') 5000] \<and>
   sessions (fst (run_task Returns Returns raced_D (StartSession ''acct1''))) ''acct1'' = Some 1 \<and>
   filter is_construction (trace (fst (run_task Returns Returns raced_D (StartSession ''acct1'')))) =
     [MakeWASocket 0 ''acct1'', MakeWASocket 1 ''acct1'']"
  by (simp add: raced_D_maps startSession_BD_def Let_def)

text \<open>
  Claim C8, amended. When the retry timer of program D fires, its callback calls
  \<^verbatim>\<open>startSession\<close> with the account id and does nothing else: the registry is not read. With
  the credentials loaded and the version fetched, a new socket is constructed and
  registered under the id, whether or not the id was in the registry; and what the
  callback does is the same for every content of the registry.
\<close>

theorem retry_ignores_registry:
  "fst (run_task Returns Returns s (StartSession c)) =
     s\<lparr>trace := trace s @ [UseMultiFileAuthState (authPath c), FetchLatestBaileysVersion,
                            MakeWASocket (length (created s)) c],
       created := created s @ [c],
       sessions := (sessions s)(c \<mapsto> length (created s))\<rparr> \<and>
   snd (run_task Returns Returns s (StartSession c)) = Some (length (created s)) \<and>
   trace (fst (run_task auth ver (s\<lparr>sessions := m\<rparr>) (StartSession c))) =
     trace (fst (run_task auth ver s (StartSession c))) \<and>
   snd (run_task auth ver (s\<lparr>sessions := m\<rparr>) (StartSession c)) =
     snd (run_task auth ver s (StartSession c))"
  by (simp add: startSession_BD_def Let_def emit_def split: outcome.splits)

subsection \<open>Cleanup invocations that overlap\<close>

text \<open>\<open>cleanup_A\<close> is its five pieces run one after the other.\<close>

lemma cleanup_A_pieces:
  "((\<lambda>(s, pc). cleanup_resume_A env pc s c) ^^ 4) (cleanup_begin_A env s c) =
     (cleanup_A env s c, Finished)"
  by (simp add: eval_nat_numeral cleanup_begin_A_def cleanup_A_def emit_def
      split: option.splits)

lemma cleanup_tail_A_no_teardown:
  "filter is_teardown_call (trace (cleanup_tail_A env s c)) = filter is_teardown_call (trace s)"
  by (simp add: cleanup_tail_A_def Let_def split: outcome.splits)

lemma cleanup_A_teardown_calls:
  "filter is_teardown_call (trace (cleanup_A env s c)) =
     filter is_teardown_call (trace s) @
       (case whatsappClients s c of None \<Rightarrow> [] | Some k \<Rightarrow> [Logout k, Destroy k])"
  by (simp add: cleanup_A_def cleanup_tail_A_no_teardown logout_logged_def
      split: option.splits outcome.splits)

text \<open>
  Claim C3, as stated, fails. A disconnect request for \<open>acct1\<close> races the \<^verbatim>\<open>disconnected\<close>
  event of its client: the second invocation of \<^verbatim>\<open>cleanup\<close> starts while the first is
  suspended at its logout, finds the client still registered, and the two run
  interleaved. \<^verbatim>\<open>logout\<close> and \<^verbatim>\<open>destroy\<close> are each called twice on the same client, and the
  notification is sent twice.
\<close>

theorem racing_cleanups_twice:
  "filter is_teardown_call (trace (fst (fst (run_A render_png race_events (init_A, []))))) =
     [Logout 0, Logout 0, Destroy 0, Destroy 0] \<and>
   filter is_notify (trace (fst (fst (run_A render_png race_events (init_A, []))))) =
     [Notify ''acct1'' ''disconnected'' None, Notify ''acct1'' ''disconnected'' None]"
  by (simp add: race_events_def init_A_def all_ok_def late_def connect_A_def truthy_def
      String_def Let_def disconnect_begin_A_def cleanup_begin_A_def owner_def disconnected_A_def
      suspended_def notifyPhpBackend_def logout_logged_def cleanup_tail_A_def disconnect_end_A_def
      sessionPath_def tag_def)

text \<open>
  Claim C3, amended. Invocations of \<^verbatim>\<open>cleanup\<close> for one account are not serialized; what an
  invocation does depends on the registry at the moment it starts. If the account has no
  registered client, as after an earlier invocation has finished, it calls neither
  \<^verbatim>\<open>logout\<close> nor \<^verbatim>\<open>destroy\<close> and runs to its end at once (resetting the maps and trying the
  deletion again). If a client is registered, also when another invocation for it is
  suspended, it calls \<^verbatim>\<open>logout\<close> on that client and suspends. The registry entry is gone
  once an invocation has finished, so of two invocations that do not overlap only the
  first calls \<^verbatim>\<open>logout\<close> and \<^verbatim>\<open>destroy\<close>. The notification is sent by the callers, one by
  each: by the \<^verbatim>\<open>disconnected\<close> handler when it has started \<^verbatim>\<open>cleanup\<close>, by the disconnect
  route when its \<^verbatim>\<open>cleanup\<close> has returned.
\<close>

theorem cleanup_not_serialized:
  "(whatsappClients s c = None \<longrightarrow>
      snd (cleanup_begin_A env s c) = Finished \<and>
      filter is_teardown_call (trace (fst (cleanup_begin_A env s c))) =
        filter is_teardown_call (trace s)) \<and>
   (\<forall>k. whatsappClients s c = Some k \<longrightarrow>
      cleanup_begin_A env s c = (emit [Logout k] s, AwaitLogout k)) \<and>
   whatsappClients (cleanup_A env s c) c = None \<and>
   filter is_teardown_call (trace (cleanup_A env' (cleanup_A env s c) c)) =
     filter is_teardown_call (trace (cleanup_A env s c)) \<and>
   filter is_notify (trace (fst (disconnected_A env s c))) =
     filter is_notify (trace s) @ [Notify c ''disconnected'' None] \<and>
   filter is_notify (trace (fst (disconnect_end_A s c))) =
     filter is_notify (trace s) @ [Notify c ''disconnected'' None]"
proof -
  have "filter is_notify (trace (fst (disconnected_A env s c))) =
          filter is_notify (trace s) @ [Notify c ''disconnected'' None]"
    by (simp add: disconnected_A_def cleanup_begin_A_def cleanup_tail_A_def notifyPhpBackend_def
        Let_def split: option.splits outcome.splits)
  then show ?thesis
    by (simp add: cleanup_begin_A_def cleanup_tail_A_no_teardown cleanup_A_teardown_calls
        cleanup_A_maps disconnect_end_A_def notifyPhpBackend_def)
qed

theorem cleanup_not_serialized_witness:
  "whatsappClients init_A ''acct1'' = None \<and>
   snd (cleanup_begin_A all_ok init_A ''acct1'') = Finished \<and>
   whatsappClients awaiting_scan_A ''acct1'' = Some 0 \<and>
   cleanup_begin_A late awaiting_scan_A ''acct1'' = (emit [Logout 0] awaiting_scan_A, AwaitLogout 0) \<and>
   filter is_teardown_call
     (trace (cleanup_A late (cleanup_A all_ok awaiting_scan_A ''acct1'') ''acct1'')) =
     [Logout 0, Destroy 0]"
  using cleanup_not_serialized [of init_A "''acct1''" all_ok late]
    cleanup_not_serialized [of awaiting_scan_A "''acct1''" late late]
    cleanup_not_serialized [of awaiting_scan_A "''acct1''" all_ok late]
  by (simp add: init_A_def awaiting_scan_A_maps cleanup_A_teardown_calls awaiting_scan_A_def
      qr_A_def render_png_def handshake_A_maps)

subsection \<open>The QR code that leaves the process\<close>

lemma qr_ok_mono: "qr_ok f P s \<Longrightarrow> P \<subseteq> Q \<Longrightarrow> qr_ok f Q s"
  unfolding qr_ok_def by blast

lemma qr_ok_le:
  assumes "qr_ok f P s" "\<And>c u. qrCodes s' c = Some u \<Longrightarrow> qrCodes s c = Some u"
  shows "qr_ok f P s'"
  using assms unfolding qr_ok_def by blast

lemma connect_A_qrCodes: "qrCodes (fst (connect_A ctor s a)) = qrCodes s"
  by (simp add: connect_A_def Let_def split: option.splits outcome.splits)

lemma send_A_qrCodes: "qrCodes (fst (send_A sent s a p m)) = qrCodes s"
  by (simp add: send_A_def Let_def split: option.splits outcome.splits)

lemma cleanup_begin_A_qrCodes:
  "qrCodes (fst (cleanup_begin_A env s c)) x = Some u \<Longrightarrow> qrCodes s x = Some u"
  by (simp add: cleanup_begin_A_def cleanup_tail_A_maps split: option.splits if_splits)

lemma cleanup_resume_A_qrCodes:
  "qrCodes (fst (cleanup_resume_A env pc s c)) x = Some u \<Longrightarrow> qrCodes s x = Some u"
  by (cases pc) (simp_all add: cleanup_tail_A_maps split: if_splits)

lemma disconnect_end_A_qrCodes: "qrCodes (fst (disconnect_end_A s c)) = qrCodes s"
  by (simp add: disconnect_end_A_def notifyPhpBackend_def)

lemma ready_A_qrCodes: "qrCodes (ready_A s c k) x = Some u \<Longrightarrow> qrCodes s x = Some u"
  by (simp add: ready_A_def notifyPhpBackend_def Let_def split: if_splits)

lemma authenticated_A_qrCodes: "qrCodes (authenticated_A s c) = qrCodes s"
  by (simp add: authenticated_A_def Let_def)

lemma auth_failure_A_qrCodes:
  "qrCodes (fst (auth_failure_A env s c)) x = Some u \<Longrightarrow> qrCodes s x = Some u"
  unfolding auth_failure_A_def by (drule cleanup_begin_A_qrCodes) simp

lemma disconnected_A_qrCodes:
  "qrCodes (fst (disconnected_A env s c)) x = Some u \<Longrightarrow> qrCodes s x = Some u"
proof -
  assume a: "qrCodes (fst (disconnected_A env s c)) x = Some u"
  obtain s1 pc where b: "cleanup_begin_A env (emit [Console Log (tag c ''Disconnected:'')] s) c = (s1, pc)"
    by (cases "cleanup_begin_A env (emit [Console Log (tag c ''Disconnected:'')] s) c")
  from a b have "qrCodes s1 x = Some u"
    by (simp add: disconnected_A_def notifyPhpBackend_def)
  with b cleanup_begin_A_qrCodes [of env "emit [Console Log (tag c ''Disconnected:'')] s" c x u]
  show ?thesis by simp
qed

lemma disconnect_begin_A_qrCodes:
  "qrCodes (fst (disconnect_begin_A env s c)) x = Some u \<Longrightarrow> qrCodes s x = Some u"
  unfolding disconnect_begin_A_def by (drule cleanup_begin_A_qrCodes) simp

lemma qr_A_ok: "qr_ok f P s \<Longrightarrow> raw \<in> P \<Longrightarrow> qr_ok f P (qr_A f s c raw)"
  by (auto simp add: qr_ok_def qr_A_def split: option.splits)

lemma status_A_qr:
  assumes "qr_ok f P s" "field (status_A s a) ''qr'' = Some (JStr u)"
  shows "\<exists>raw\<in>P. f raw = Some u"
proof (cases "truthy a")
  case False
  with assms(2) show ?thesis by (simp add: status_A_def field_def)
next
  case True
  with assms(2) have "jstr (or_null (qrCodes s (String a))) = JStr u"
    by (simp add: status_A_def field_def Let_def)
  then have "qrCodes s (String a) = Some u"
    by (auto simp add: jstr_def or_null_def split: option.splits if_splits)
  with assms(1) show ?thesis by (simp add: qr_ok_def)
qed

lemma connect_A_no_qr: "field (snd (connect_A ctor s a)) ''qr'' = None"
  by (simp add: connect_A_def field_def Let_def split: option.splits outcome.splits)

lemma send_A_no_qr: "field (snd (send_A sent s a p m)) ''qr'' = None"
  by (simp add: send_A_def field_def Let_def split: option.splits outcome.splits)

lemma disconnect_end_A_no_qr: "field (snd (disconnect_end_A s c)) ''qr'' = None"
  by (simp add: disconnect_end_A_def field_def)


lemma resume_A_inv:
  assumes ok: "qr_ok f P s" and pl: "\<And>c raw. p = Render c raw \<Longrightarrow> raw \<in> P"
    and res: "resume_A f p s = ((s', p'), r)"
  shows "qr_ok f P s' \<and> (\<forall>c raw. p' = Render c raw \<longrightarrow> p = Render c raw) \<and>
         (\<forall>x. r = Some x \<longrightarrow> field x ''qr'' = None)"
proof (cases p)
  case (Cleanup env c pc route)
  obtain s1 pc1 where step: "cleanup_resume_A env pc s c = (s1, pc1)"
    by (cases "cleanup_resume_A env pc s c")
  have ok1: "qr_ok f P s1"
    using qr_ok_le [OF ok, of s1] cleanup_resume_A_qrCodes [of env pc s c] step by simp
  have ok2: "qr_ok f P (fst (disconnect_end_A s1 c))"
    using ok1 by (simp add: qr_ok_def disconnect_end_A_qrCodes)
  show ?thesis
    using res Cleanup step ok1 ok2 disconnect_end_A_no_qr [of s1 c]
    by (auto split: if_splits prod.splits)
next
  case (Render c raw)
  with res ok pl show ?thesis by (auto simp add: qr_A_ok)
next
  case Ended
  with res ok show ?thesis by auto
qed

lemma suspended_no_render: "Render c raw \<notin> set (suspended env c' pc route)"
  by (simp add: suspended_def)

lemma step_A_inv:
  assumes inv: "qr_inv f P (s, ps)" and st: "step_A f e (s, ps) = (st', r)"
  shows "qr_inv f (P \<union> set (payloads [e])) st' \<and>
         (\<forall>x u. r = Some x \<longrightarrow> field x ''qr'' = Some (JStr u) \<longrightarrow> (\<exists>raw\<in>P. f raw = Some u))"
proof -
  from inv have ok: "qr_ok f P s" and pl: "\<And>c raw. Render c raw \<in> set ps \<Longrightarrow> raw \<in> P"
    by (auto simp add: qr_inv_def)
  show ?thesis
  proof (cases e)
    case (ReqConnect a ctor)
    have "qr_ok f P (fst (connect_A ctor s a))"
      using ok by (simp add: qr_ok_def connect_A_qrCodes)
    with st ReqConnect pl connect_A_no_qr [of ctor s a] show ?thesis
      by (auto simp add: qr_inv_def split: prod.splits)
  next
    case (ReqStatus a)
    with st inv status_A_qr [OF ok, of a] show ?thesis
      by (auto simp add: qr_inv_def)
  next
    case (ReqSend a p m sent)
    have "qr_ok f P (fst (send_A sent s a p m))"
      using ok by (simp add: qr_ok_def send_A_qrCodes)
    with st ReqSend pl send_A_no_qr [of sent s a p m] show ?thesis
      by (auto simp add: qr_inv_def split: prod.splits)
  next
    case (ReqDisconnect a env)
    obtain s1 pc where b: "disconnect_begin_A env s (String a) = (s1, pc)"
      by (cases "disconnect_begin_A env s (String a)")
    have ok1: "qr_ok f P s1"
      using qr_ok_le [OF ok, of s1] disconnect_begin_A_qrCodes [of env s "String a"] b by simp
    have ok2: "qr_ok f P (fst (disconnect_end_A s1 (String a)))"
      using ok1 by (simp add: qr_ok_def disconnect_end_A_qrCodes)
    show ?thesis
      using st ReqDisconnect b ok ok1 ok2 pl disconnect_end_A_no_qr [of s1 "String a"]
      by (auto simp add: qr_inv_def field_def split: if_splits prod.splits)
  next
    case (EvQr h raw)
    have "qr_ok f (insert raw P) s" using ok by (rule qr_ok_mono) blast
    with st EvQr pl show ?thesis
      by (auto simp add: qr_inv_def split: option.splits)
  next
    case (EvReady h user)
    have "\<And>c. qr_ok f P (ready_A (s\<lparr>info := (info s)(h \<mapsto> user)\<rparr>) c h)"
      using qr_ok_le [OF ok] ready_A_qrCodes [of "s\<lparr>info := (info s)(h \<mapsto> user)\<rparr>"] by simp
    with st EvReady ok pl show ?thesis
      by (auto simp add: qr_inv_def split: option.splits)
  next
    case (EvAuthenticated h)
    have "\<And>c. qr_ok f P (authenticated_A s c)"
      using ok by (simp add: qr_ok_def authenticated_A_qrCodes)
    with st EvAuthenticated ok pl show ?thesis
      by (auto simp add: qr_inv_def split: option.splits)
  next
    case (EvAuthFailure h env)
    have "\<And>c s1 pc. auth_failure_A env s c = (s1, pc) \<Longrightarrow> qr_ok f P s1"
      using qr_ok_le [OF ok] auth_failure_A_qrCodes [of env s] by (metis fst_conv)
    with st EvAuthFailure ok pl show ?thesis
      by (auto simp add: qr_inv_def suspended_no_render split: option.splits prod.splits)
  next
    case (EvDisconnected h env)
    have "\<And>c s1 pc. disconnected_A env s c = (s1, pc) \<Longrightarrow> qr_ok f P s1"
      using qr_ok_le [OF ok] disconnected_A_qrCodes [of env s] by (metis fst_conv)
    with st EvDisconnected ok pl show ?thesis
      by (auto simp add: qr_inv_def suspended_no_render split: option.splits prod.splits)
  next
    case (Resume i)
    show ?thesis
    proof (cases "i < length ps")
      case False
      with st Resume inv show ?thesis by auto
    next
      case True
      obtain s1 p1 r1 where b: "resume_A f (ps ! i) s = ((s1, p1), r1)"
        by (cases "resume_A f (ps ! i) s") auto
      have "\<And>c raw. ps ! i = Render c raw \<Longrightarrow> raw \<in> P"
        using pl True nth_mem [of i ps] by metis
      from resume_A_inv [OF ok this b]
      have ok1: "qr_ok f P s1"
        and keep: "\<And>c raw. p1 = Render c raw \<Longrightarrow> ps ! i = Render c raw"
        and noqr: "\<And>x. r1 = Some x \<Longrightarrow> field x ''qr'' = None"
        by auto
      have "\<And>c raw. Render c raw \<in> set (ps[i := p1]) \<Longrightarrow> raw \<in> P"
      proof -
        fix c raw
        assume "Render c raw \<in> set (ps[i := p1])"
        then have "Render c raw = p1 \<or> Render c raw \<in> set ps"
          using set_update_subset_insert [of ps i p1] by auto
        then show "raw \<in> P"
          using keep [of c raw] pl True nth_mem [of i ps] by metis
      qed
      with st Resume True b ok1 noqr show ?thesis
        by (auto simp add: qr_inv_def)
    qed
  qed
qed

lemma payloads_Cons: "set (payloads (e # es)) = set (payloads [e]) \<union> set (payloads es)"
  by (cases e) simp_all

lemma run_A_inv:
  assumes "qr_inv f P st" "x \<in> set (snd (run_A f evs st))" "field x ''qr'' = Some (JStr u)"
  shows "\<exists>raw \<in> P \<union> set (payloads evs). f raw = Some u"
  using assms
proof (induction evs arbitrary: st P)
  case Nil
  then show ?case by simp
next
  case (Cons e es)
  obtain s ps where st: "st = (s, ps)" by (cases st)
  obtain st1 r where a: "step_A f e (s, ps) = (st1, r)" by (cases "step_A f e (s, ps)")
  obtain st2 rs where b: "run_A f es st1 = (st2, rs)" by (cases "run_A f es st1")
  from step_A_inv [OF Cons.prems(1) [unfolded st] a]
  have inv1: "qr_inv f (P \<union> set (payloads [e])) st1"
    and now: "\<And>y v. r = Some y \<Longrightarrow> field y ''qr'' = Some (JStr v) \<Longrightarrow> \<exists>raw\<in>P. f raw = Some v"
    by auto
  from Cons.prems(2) st a b have "r = Some x \<or> x \<in> set rs"
    by (auto split: option.splits)
  then show ?case
  proof
    assume "r = Some x"
    from now [OF this Cons.prems(3)] show ?thesis by auto
  next
    assume "x \<in> set rs"
    with b have "x \<in> set (snd (run_A f es st1))" by simp
    from Cons.IH [OF inv1 this Cons.prems(3)] show ?thesis
      using payloads_Cons [of e es] by auto
  qed
qed

lemma init_A_inv: "qr_inv f {} (init_A, [])"
  by (simp add: qr_inv_def qr_ok_def init_A_def)

lemma status_after_qr_A:
  assumes "f raw = Some u" "u \<noteq> []" "c \<noteq> []"
  shows "field (status_A (qr_A f s c raw) (Some c)) ''qr'' = Some (JStr u)"
  using assms
  by (simp add: status_A_def qr_A_def field_def truthy_def String_def or_null_def jstr_def Let_def)

text \<open>Runs that differ only in QR payloads with the same renderings give the same
  answers and the same state.\<close>

lemma same_proc_refl: "same_proc f p p"
  by (cases p) simp_all

lemma same_procs_refl: "list_all2 (same_proc f) ps ps"
  by (simp add: list_all2_refl same_proc_refl)

lemma resume_A_same:
  assumes "same_proc f p p'"
  shows "fst (fst (resume_A f p s)) = fst (fst (resume_A f p' s)) \<and>
         snd (resume_A f p s) = snd (resume_A f p' s) \<and>
         same_proc f (snd (fst (resume_A f p s))) (snd (fst (resume_A f p' s)))"
proof (cases p)
  case (Render c raw)
  with assms obtain raw' where "p' = Render c raw'" "f raw = f raw'"
    by (cases p') auto
  with Render show ?thesis by (simp add: qr_A_def)
next
  case (Cleanup env c pc route)
  with assms have "p' = p" by (cases p') auto
  then show ?thesis by (simp add: same_proc_refl)
next
  case Ended
  with assms have "p' = p" by (cases p') auto
  then show ?thesis by (simp add: same_proc_refl)
qed

lemma step_A_same:
  assumes ev: "same_rendering f e e'" and ps: "list_all2 (same_proc f) ps ps'"
  shows "fst (fst (step_A f e (s, ps))) = fst (fst (step_A f e' (s, ps'))) \<and>
         snd (step_A f e (s, ps)) = snd (step_A f e' (s, ps')) \<and>
         list_all2 (same_proc f) (snd (fst (step_A f e (s, ps)))) (snd (fst (step_A f e' (s, ps'))))"
proof (cases e)
  case (EvQr h raw)
  with ev obtain raw' where e': "e' = EvQr h raw'" and r: "f raw = f raw'"
    by (cases e') auto
  show ?thesis
    using EvQr e' r ps by (auto simp add: list_all2_appendI split: option.splits)
next
  case (Resume i)
  with ev have e': "e' = e" by (cases e') auto
  have len: "length ps = length ps'" using ps by (rule list_all2_lengthD)
  show ?thesis
  proof (cases "i < length ps")
    case False
    with Resume e' len ps show ?thesis by simp
  next
    case True
    have rel: "same_proc f (ps ! i) (ps' ! i)"
      using ps True by (rule list_all2_nthD)
    obtain s1 p1 r1 where a: "resume_A f (ps ! i) s = ((s1, p1), r1)"
      by (cases "resume_A f (ps ! i) s") auto
    obtain s2 p2 r2 where b: "resume_A f (ps' ! i) s = ((s2, p2), r2)"
      by (cases "resume_A f (ps' ! i) s") auto
    from resume_A_same [OF rel, of s] a b
    have "s1 = s2" "r1 = r2" "same_proc f p1 p2" by simp_all
    with Resume e' len True a b ps show ?thesis
      by (simp add: list_all2_update_cong)
  qed
next
  case (ReqConnect a ctor)
  with ev have "e' = e" by (cases e') auto
  with ReqConnect ps show ?thesis by (simp split: prod.splits)
next
  case (ReqStatus a)
  with ev have "e' = e" by (cases e') auto
  with ReqStatus ps show ?thesis by simp
next
  case (ReqSend a p m sent)
  with ev have "e' = e" by (cases e') auto
  with ReqSend ps show ?thesis by (simp split: prod.splits)
next
  case (ReqDisconnect a env)
  with ev have "e' = e" by (cases e') auto
  with ReqDisconnect ps show ?thesis
    by (simp add: list_all2_appendI same_proc_refl split: prod.splits)
next
  case (EvReady h user)
  with ev have "e' = e" by (cases e') auto
  with EvReady ps show ?thesis by (simp split: option.splits)
next
  case (EvAuthenticated h)
  with ev have "e' = e" by (cases e') auto
  with EvAuthenticated ps show ?thesis by (simp split: option.splits)
next
  case (EvAuthFailure h env)
  with ev have "e' = e" by (cases e') auto
  with EvAuthFailure ps show ?thesis
    by (simp add: list_all2_appendI same_procs_refl split: option.splits prod.splits)
next
  case (EvDisconnected h env)
  with ev have "e' = e" by (cases e') auto
  with EvDisconnected ps show ?thesis
    by (simp add: list_all2_appendI same_procs_refl split: option.splits prod.splits)
qed

lemma run_A_same:
  assumes "list_all2 (same_rendering f) evs evs'" "list_all2 (same_proc f) ps ps'"
  shows "snd (run_A f evs (s, ps)) = snd (run_A f evs' (s, ps')) \<and>
         fst (fst (run_A f evs (s, ps))) = fst (fst (run_A f evs' (s, ps')))"
  using assms
proof (induction evs evs' arbitrary: s ps ps' rule: list_all2_induct)
  case Nil
  then show ?case by simp
next
  case (Cons e es e' es')
  obtain s1 ps1 r where a: "step_A f e (s, ps) = ((s1, ps1), r)"
    by (cases "step_A f e (s, ps)") auto
  obtain s2 ps2 r' where b: "step_A f e' (s, ps') = ((s2, ps2), r')"
    by (cases "step_A f e' (s, ps')") auto
  from step_A_same [OF Cons.hyps(1) Cons.prems, of s] a b
  have eq: "s1 = s2" "r = r'" and rel: "list_all2 (same_proc f) ps1 ps2" by simp_all
  from Cons.IH [OF rel, of s1] a b eq show ?case
    by (auto split: prod.splits)
qed

text \<open>
  Claim C9. In every run of program A from its start, whatever the requests, the events
  of the clients and the order in which suspended handlers continue: a \<^verbatim>\<open>qr\<close> field that is
  a string, in any HTTP answer, is the renderer's output for a payload that a client
  delivered; so no answer carries a delivered payload as its \<^verbatim>\<open>qr\<close> field, the renderer
  never returning such a payload. Once the \<^verbatim>\<open>qr\<close> handler has stored the rendering \<open>u\<close> of
  a payload, \<^verbatim>\<open>status\<close> for that account answers with \<open>u\<close>. And the answers of a run depend
  on the payloads through their renderings only: replacing every payload by one with the
  same rendering changes no answer.
\<close>

theorem exposed_qr_is_rendering:
  assumes "r \<in> set (snd (run_A toDataURL evs (init_A, [])))"
  shows "(\<forall>u. field r ''qr'' = Some (JStr u) \<longrightarrow>
            (\<exists>raw \<in> set (payloads evs). toDataURL raw = Some u)) \<and>
         (\<forall>raw \<in> set (payloads evs). (\<forall>q. toDataURL q \<noteq> Some raw) \<longrightarrow>
            field r ''qr'' \<noteq> Some (JStr raw)) \<and>
         (\<forall>s c raw u. toDataURL raw = Some u \<and> u \<noteq> [] \<and> c \<noteq> [] \<longrightarrow>
            field (status_A (qr_A toDataURL s c raw) (Some c)) ''qr'' = Some (JStr u)) \<and>
         (\<forall>evs'. list_all2 (same_rendering toDataURL) evs evs' \<longrightarrow>
            snd (run_A toDataURL evs' (init_A, [])) = snd (run_A toDataURL evs (init_A, [])))"
proof -
  have a: "\<And>u. field r ''qr'' = Some (JStr u) \<Longrightarrow> \<exists>raw \<in> set (payloads evs). toDataURL raw = Some u"
    using run_A_inv [OF init_A_inv assms] by simp
  then have b: "\<forall>raw \<in> set (payloads evs). (\<forall>q. toDataURL q \<noteq> Some raw) \<longrightarrow>
            field r ''qr'' \<noteq> Some (JStr raw)"
    by blast
  have c: "\<And>evs'. list_all2 (same_rendering toDataURL) evs evs' \<Longrightarrow>
            snd (run_A toDataURL evs' (init_A, [])) = snd (run_A toDataURL evs (init_A, []))"
    using run_A_same [of toDataURL evs _ "[]" "[]" init_A] by simp
  from a b c status_after_qr_A show ?thesis by blast
qed

lemma scan_run:
  "snd (run_A render_png scan_events (init_A, [])) =
     [(200, [(''success'', JBool True), (''message'', JStr ''Connecting...'')]),
      (200, [(''qr'', JStr ''data:image/png;base64,2@raw-pairing-code''),
             (''connected'', JBool False), (''authenticating'', JBool False), (''phone'', JNull)])]"
  by (simp add: scan_events_def init_A_def connect_A_def status_A_def qr_A_def render_png_def
      owner_def truthy_def String_def or_null_def jstr_def default_status_def Let_def)

lemma scan_run_blank:
  "snd (run_A render_blank scan_events (init_A, [])) =
     [(200, [(''success'', JBool True), (''message'', JStr ''Connecting...'')]),
      (200, [(''qr'', JStr ''data:image/png;base64,iVBORw0KGgo=''),
             (''connected'', JBool False), (''authenticating'', JBool False), (''phone'', JNull)])]"
  by (simp add: scan_events_def init_A_def connect_A_def status_A_def qr_A_def render_blank_def
      owner_def truthy_def String_def or_null_def jstr_def default_status_def Let_def)

theorem exposed_qr_is_rendering_witness:
  "(200, [(''qr'', JStr ''data:image/png;base64,2@raw-pairing-code''),
          (''connected'', JBool False), (''authenticating'', JBool False), (''phone'', JNull)])
     \<in> set (snd (run_A render_png scan_events (init_A, []))) \<and>
   payloads scan_events = [''2@raw-pairing-code''] \<and>
   render_png ''2@raw-pairing-code'' = Some ''data:image/png;base64,2@raw-pairing-code'' \<and>
   (\<forall>q. render_png q \<noteq> Some ''2@raw-pairing-code'') \<and>
   field (200, [(''qr'', JStr ''data:image/png;base64,2@raw-pairing-code''),
                (''connected'', JBool False), (''authenticating'', JBool False), (''phone'', JNull)])
     ''qr'' \<noteq> Some (JStr ''2@raw-pairing-code'') \<and>
   field (status_A (qr_A render_png handshake_A ''acct1'' ''2@raw-pairing-code'') (Some ''acct1'')) ''qr'' =
     Some (JStr ''data:image/png;base64,2@raw-pairing-code'') \<and>
   list_all2 (same_rendering render_blank) scan_events scan_events' \<and>
   snd (run_A render_blank scan_events' (init_A, [])) =
     [(200, [(''success'', JBool True), (''message'', JStr ''Connecting...'')]),
      (200, [(''qr'', JStr ''data:image/png;base64,iVBORw0KGgo=''),
             (''connected'', JBool False), (''authenticating'', JBool False), (''phone'', JNull)])]"
proof -
  let ?r = "(200, [(''qr'', JStr ''data:image/png;base64,2@raw-pairing-code''),
          (''connected'', JBool False), (''authenticating'', JBool False), (''phone'', JNull)])"
  have m: "?r \<in> set (snd (run_A render_png scan_events (init_A, [])))"
    by (simp add: scan_run)
  have p: "payloads scan_events = [''2@raw-pairing-code'']"
    by (simp add: scan_events_def)
  have f: "render_png ''2@raw-pairing-code'' = Some ''data:image/png;base64,2@raw-pairing-code''"
    by (simp add: render_png_def)
  have n: "\<forall>q. render_png q \<noteq> Some ''2@raw-pairing-code''"
    by (simp add: render_png_def)
  have s: "field (status_A (qr_A render_png handshake_A ''acct1'' ''2@raw-pairing-code'')
           (Some ''acct1'')) ''qr'' = Some (JStr ''data:image/png;base64,2@raw-pairing-code'')"
    using exposed_qr_is_rendering [OF m] f by simp
  have d: "field ?r ''qr'' \<noteq> Some (JStr ''2@raw-pairing-code'')"
    using exposed_qr_is_rendering [OF m] p n by simp
  have m': "(200, [(''success'', JBool True), (''message'', JStr ''Connecting...'')])
              \<in> set (snd (run_A render_blank scan_events (init_A, [])))"
    by (simp add: scan_run_blank)
  have l: "list_all2 (same_rendering render_blank) scan_events scan_events'"
    by (simp add: scan_events_def scan_events'_def render_blank_def)
  have e: "snd (run_A render_blank scan_events' (init_A, [])) =
             snd (run_A render_blank scan_events (init_A, []))"
    using exposed_qr_is_rendering [OF m'] l by blast
  from m p f n s d l e show ?thesis
    by (simp only: scan_run_blank) blast
qed

subsection \<open>The order of a teardown and its failures\<close>

lemma awaiting_scan_A_trace:
  "trace awaiting_scan_A = [NewClient 0 ''acct1'', Initialize 0, Console Log ''[acct1] QR generated'']"
  by (simp add: awaiting_scan_A_def qr_A_def render_png_def handshake_A_maps tag_def)

text \<open>
  Claim C6, as stated, fails in program A. With \<^verbatim>\<open>destroy\<close> throwing, \<^verbatim>\<open>cleanup\<close> leaves the
  same trace as with \<^verbatim>\<open>destroy\<close> succeeding: that failure is not logged. \<^verbatim>\<open>cleanup\<close> sends
  no notification. The \<^verbatim>\<open>disconnected\<close> handler sends it right after \<^verbatim>\<open>cleanup\<close> has called
  \<^verbatim>\<open>logout\<close>, before the delays, \<^verbatim>\<open>destroy\<close> and the removals; and a teardown started by the
  \<^verbatim>\<open>auth_failure\<close> handler runs to its end without any notification.
\<close>

theorem teardown_not_as_claimed:
  "trace (cleanup_A destroy_throws awaiting_scan_A ''acct1'') =
     [NewClient 0 ''acct1'', Initialize 0, Console Log ''[acct1] QR generated'',
      Logout 0, Console Log ''[acct1] Logged out from WhatsApp Web'', Sleep 3000,
      Destroy 0, Sleep 2500,
      ExistsSync ''.wwebjs_auth/session-acct1'', RmSync ''.wwebjs_auth/session-acct1'',
      Console Log ''[acct1] Session files deleted''] \<and>
   trace (cleanup_A destroy_throws awaiting_scan_A ''acct1'') =
     trace (cleanup_A all_ok awaiting_scan_A ''acct1'') \<and>
   trace (fst (disconnected_A all_ok awaiting_scan_A ''acct1'')) =
     [NewClient 0 ''acct1'', Initialize 0, Console Log ''[acct1] QR generated'',
      Console Log ''[acct1] Disconnected:'', Logout 0, Notify ''acct1'' ''disconnected'' None] \<and>
   snd (disconnected_A all_ok awaiting_scan_A ''acct1'') = AwaitLogout 0 \<and>
   filter is_notify (trace (fst (fst (run_A render_png auth_failure_events (init_A, []))))) = [] \<and>
   filter is_teardown_call (trace (fst (fst (run_A render_png auth_failure_events (init_A, []))))) =
     [Logout 0, Destroy 0] \<and>
   whatsappClients (fst (fst (run_A render_png auth_failure_events (init_A, [])))) ''acct1'' = None"
  by (simp add: cleanup_A_def cleanup_tail_A_def logout_logged_def destroy_throws_def all_ok_def
      awaiting_scan_A_maps awaiting_scan_A_trace disconnected_A_def cleanup_begin_A_def
      notifyPhpBackend_def sessionPath_def tag_def Let_def auth_failure_events_def init_A_def
      connect_A_def truthy_def String_def owner_def auth_failure_A_def suspended_def)

lemma cleanup_tail_A_trace:
  "trace (cleanup_tail_A env s c) =
     trace s @ [ExistsSync (sessionPath c)] @
       (if exists_r env then
          [RmSync (sessionPath c),
           Console Log (tag c (if rm_r env = Returns then ''Session files deleted''
                               else ''Note: Could not delete session files (likely locked):''))]
        else [])"
  by (simp add: cleanup_tail_A_def Let_def split: outcome.splits)

lemma cleanup_A_trace:
  assumes "whatsappClients s c = Some k"
  shows "trace (cleanup_A env s c) =
     trace s @
       [Logout k,
        (if logout_r env = Returns then Console Log (tag c ''Logged out from WhatsApp Web'')
         else Console Warn (tag c ''Logout failed:'')),
        Sleep 3000, Destroy k, Sleep 2500, ExistsSync (sessionPath c)] @
       (if exists_r env then
          [RmSync (sessionPath c),
           Console Log (tag c (if rm_r env = Returns then ''Session files deleted''
                               else ''Note: Could not delete session files (likely locked):''))]
        else [])"
  using assms
  by (simp add: cleanup_A_def cleanup_tail_A_trace logout_logged_def split: outcome.splits)

lemma cleanup_A_before_removal:
  assumes "whatsappClients s c = Some k"
  shows "((\<lambda>(s, pc). cleanup_resume_A env pc s c) ^^ 3) (cleanup_begin_A env s c) =
           (emit [Logout k, logout_logged env c, Sleep 3000, Destroy k, Sleep 2500] s, Sleep2500) \<and>
         cleanup_A env s c =
           cleanup_tail_A env (emit [Logout k, logout_logged env c, Sleep 3000, Destroy k, Sleep 2500] s) c"
  using assms
  by (simp add: eval_nat_numeral cleanup_begin_A_def cleanup_A_def emit_def)

lemma cleanup_C_trace:
  assumes "whatsappClients s c = Some k"
  shows "trace (cleanup_C env s c) =
     trace s @ [Destroy k, ExistsSync (sessionPath c)] @
       (if exists_r env then
          [RmSync (sessionPath c),
           Console Log (tag c (if rm_r env = Returns then ''Session files deleted''
                               else ''Could not delete session files:''))]
        else [])"
  using assms by (simp add: cleanup_C_def Let_def split: outcome.splits)

lemma disconnect_A_trace:
  assumes "c \<noteq> []"
  shows "trace (fst (disconnect_A env s (Some c))) =
           trace (cleanup_A env (emit [Console Log (tag c ''Disconnect requested via API'')] s) c) @
             [Notify c ''disconnected'' None] \<and>
         snd (disconnect_A env s (Some c)) = (200, [(''success'', JBool True)])"
  using assms
  by (simp add: disconnect_A_def disconnect_end_A_def notifyPhpBackend_def truthy_def String_def
      Let_def)

text \<open>
  Claim C6, amended. In program A, \<^verbatim>\<open>cleanup\<close> for an account with a registered client
  \<open>k\<close> makes these calls in this order, whatever any of them answers: \<^verbatim>\<open>logout\<close> on \<open>k\<close>, a
  delay of 3000 ms, \<^verbatim>\<open>destroy\<close> on \<open>k\<close>, a delay of 2500 ms, then (the maps being untouched
  until that delay is over) the removal of the client and QR entries, the check for the
  credential directory and, if it exists, its deletion. A failing logout is logged as a
  warning and a failing deletion as a note; a failing \<^verbatim>\<open>destroy\<close> leaves no line. The
  notification is not a step of \<^verbatim>\<open>cleanup\<close>: the disconnect route sends it after
  \<^verbatim>\<open>cleanup\<close> has returned, as its last call before answering success. In program C,
  \<^verbatim>\<open>cleanup\<close> calls \<^verbatim>\<open>destroy\<close>, removes the entries, and checks for and deletes the
  directory, whatever \<^verbatim>\<open>destroy\<close> and the deletion answer.
\<close>

theorem cleanup_order_and_tolerance:
  assumes "whatsappClients s c = Some k"
  shows
    "trace (cleanup_A env s c) =
       trace s @
         [Logout k,
          (if logout_r env = Returns then Console Log (tag c ''Logged out from WhatsApp Web'')
           else Console Warn (tag c ''Logout failed:'')),
          Sleep 3000, Destroy k, Sleep 2500, ExistsSync (sessionPath c)] @
         (if exists_r env then
            [RmSync (sessionPath c),
             Console Log (tag c (if rm_r env = Returns then ''Session files deleted''
                                 else ''Note: Could not delete session files (likely locked):''))]
          else []) \<and>
     ((\<lambda>(s, pc). cleanup_resume_A env pc s c) ^^ 3) (cleanup_begin_A env s c) =
       (emit [Logout k, logout_logged env c, Sleep 3000, Destroy k, Sleep 2500] s, Sleep2500) \<and>
     ((\<lambda>(s, pc). cleanup_resume_A env pc s c) ^^ 4) (cleanup_begin_A env s c) =
       (cleanup_A env s c, Finished) \<and>
     whatsappClients (cleanup_A env s c) c = None \<and>
     qrCodes (cleanup_A env s c) c = None \<and>
     connectionStatus (cleanup_A env s c) c = Some default_status \<and>
     (c \<noteq> [] \<longrightarrow>
        trace (fst (disconnect_A env s (Some c))) =
          trace (cleanup_A env (emit [Console Log (tag c ''Disconnect requested via API'')] s) c) @
            [Notify c ''disconnected'' None] \<and>
        snd (disconnect_A env s (Some c)) = (200, [(''success'', JBool True)])) \<and>
     trace (cleanup_C env s c) =
       trace s @ [Destroy k, ExistsSync (sessionPath c)] @
         (if exists_r env then
            [RmSync (sessionPath c),
             Console Log (tag c (if rm_r env = Returns then ''Session files deleted''
                                 else ''Could not delete session files:''))]
          else [])"
proof -
  note order = cleanup_A_trace [OF assms, of env]
  note before = cleanup_A_before_removal [OF assms, of env, THEN conjunct1]
  note pieces = cleanup_A_pieces [of env c s]
  note order_C = cleanup_C_trace [OF assms, of env]
  have route: "c \<noteq> [] \<longrightarrow>
        trace (fst (disconnect_A env s (Some c))) =
          trace (cleanup_A env (emit [Console Log (tag c ''Disconnect requested via API'')] s) c) @
            [Notify c ''disconnected'' None] \<and>
        snd (disconnect_A env s (Some c)) = (200, [(''success'', JBool True)])"
    using disconnect_A_trace [of c env s] by blast
  have gone: "whatsappClients (cleanup_A env s c) c = None"
    and gone_qr: "qrCodes (cleanup_A env s c) c = None"
    and reset: "connectionStatus (cleanup_A env s c) c = Some default_status"
    by (simp_all add: cleanup_A_maps)
  from order before pieces gone gone_qr reset route order_C show ?thesis
    by (intro conjI) assumption+
qed

theorem cleanup_order_and_tolerance_witness:
  "whatsappClients awaiting_scan_A ''acct1'' = Some 0 \<and> ''acct1'' \<noteq> [] \<and>
   trace (cleanup_A all_fail awaiting_scan_A ''acct1'') =
     [NewClient 0 ''acct1'', Initialize 0, Console Log ''[acct1] QR generated'',
      Logout 0, Console Warn ''[acct1] Logout failed:'', Sleep 3000, Destroy 0, Sleep 2500,
      ExistsSync ''.wwebjs_auth/session-acct1'', RmSync ''.wwebjs_auth/session-acct1'',
      Console Log ''[acct1] Note: Could not delete session files (likely locked):''] \<and>
   whatsappClients (cleanup_A all_fail awaiting_scan_A ''acct1'') ''acct1'' = None \<and>
   trace (fst (disconnect_A all_fail awaiting_scan_A (Some ''acct1''))) =
     [NewClient 0 ''acct1'', Initialize 0, Console Log ''[acct1] QR generated'',
      Console Log ''[acct1] Disconnect requested via API'',
      Logout 0, Console Warn ''[acct1] Logout failed:'', Sleep 3000, Destroy 0, Sleep 2500,
      ExistsSync ''.wwebjs_auth/session-acct1'', RmSync ''.wwebjs_auth/session-acct1'',
      Console Log ''[acct1] Note: Could not delete session files (likely locked):'',
      Notify ''acct1'' ''disconnected'' None] \<and>
   trace (cleanup_C all_fail awaiting_scan_A ''acct1'') =
     [NewClient 0 ''acct1'', Initialize 0, Console Log ''[acct1] QR generated'',
      Destroy 0, ExistsSync ''.wwebjs_auth/session-acct1'', RmSync ''.wwebjs_auth/session-acct1'',
      Console Log ''[acct1] Could not delete session files:'']"
proof -
  have k: "whatsappClients awaiting_scan_A ''acct1'' = Some 0"
    by (simp add: awaiting_scan_A_maps)
  have k': "whatsappClients
              (emit [Console Log (tag ''acct1'' ''Disconnect requested via API'')] awaiting_scan_A)
              ''acct1'' = Some 0"
    by (simp add: awaiting_scan_A_maps)
  show ?thesis
    using cleanup_order_and_tolerance [OF k, of all_fail]
      cleanup_order_and_tolerance [OF k', of all_fail]
    by (simp add: k all_fail_def awaiting_scan_A_trace sessionPath_def tag_def)
qed

end
